theory Spec2Isabelle
  imports Complex_Main "HOL-Library.Monad_Syntax"
begin

section \<open>NumPy float64 scalars\<close>

text \<open>
  A float64 value is a finite number, one of the two infinities, or NaN. The special
  values propagate as IEEE 754 prescribes (NaN absorbs, \<open>inf - inf\<close> and \<open>0 * inf\<close> are
  NaN, every comparison with NaN is false). Finite results are exact real numbers:
  rounding, overflow of a finite result and the sign of zero are not represented.
\<close>

datatype f64 = Fin real | PInf | NInf | NaN

fun isnan :: "f64 \<Rightarrow> bool" where
  "isnan NaN = True"
| "isnan _ = False"

fun isfinite :: "f64 \<Rightarrow> bool" where
  "isfinite (Fin _) = True"
| "isfinite _ = False"

fun fneg :: "f64 \<Rightarrow> f64" where
  "fneg (Fin x) = Fin (- x)"
| "fneg PInf = NInf"
| "fneg NInf = PInf"
| "fneg NaN = NaN"

fun fadd :: "f64 \<Rightarrow> f64 \<Rightarrow> f64" where
  "fadd NaN _ = NaN"
| "fadd _ NaN = NaN"
| "fadd (Fin x) (Fin y) = Fin (x + y)"
| "fadd PInf NInf = NaN"
| "fadd NInf PInf = NaN"
| "fadd PInf _ = PInf"
| "fadd _ PInf = PInf"
| "fadd NInf _ = NInf"
| "fadd _ NInf = NInf"

definition fsub :: "f64 \<Rightarrow> f64 \<Rightarrow> f64" where
  "fsub a b = fadd a (fneg b)"

text \<open>The product of \<open>+inf\<close> with a finite number: NaN at zero, else the sign of the number.\<close>

definition inf_times :: "real \<Rightarrow> f64" where
  "inf_times x = (if x = 0 then NaN else if 0 < x then PInf else NInf)"

fun fmul :: "f64 \<Rightarrow> f64 \<Rightarrow> f64" where
  "fmul NaN _ = NaN"
| "fmul _ NaN = NaN"
| "fmul (Fin x) (Fin y) = Fin (x * y)"
| "fmul (Fin x) PInf = inf_times x"
| "fmul PInf (Fin y) = inf_times y"
| "fmul (Fin x) NInf = inf_times (- x)"
| "fmul NInf (Fin y) = inf_times (- y)"
| "fmul PInf PInf = PInf"
| "fmul NInf NInf = PInf"
| "fmul PInf NInf = NInf"
| "fmul NInf PInf = NInf"

fun fdiv :: "f64 \<Rightarrow> f64 \<Rightarrow> f64" where
  "fdiv NaN _ = NaN"
| "fdiv _ NaN = NaN"
| "fdiv (Fin x) (Fin y) = (if y = 0 then inf_times x else Fin (x / y))"
| "fdiv (Fin x) _ = Fin 0"
| "fdiv PInf (Fin y) = (if 0 \<le> y then PInf else NInf)"
| "fdiv NInf (Fin y) = (if 0 \<le> y then NInf else PInf)"
| "fdiv _ _ = NaN"

fun fsqrt :: "f64 \<Rightarrow> f64" where
  "fsqrt (Fin x) = (if 0 \<le> x then Fin (sqrt x) else NaN)"
| "fsqrt PInf = PInf"
| "fsqrt _ = NaN"

fun fcos :: "f64 \<Rightarrow> f64" where
  "fcos (Fin x) = Fin (cos x)"
| "fcos _ = NaN"

fun fsin :: "f64 \<Rightarrow> f64" where
  "fsin (Fin x) = Fin (sin x)"
| "fsin _ = NaN"

text \<open>The comparison \<open><\<close>, false whenever an operand is NaN; \<open>a > b\<close> is \<open>b < a\<close>.\<close>

fun flt :: "f64 \<Rightarrow> f64 \<Rightarrow> bool" where
  "flt NaN _ = False"
| "flt _ NaN = False"
| "flt (Fin x) (Fin y) = (x < y)"
| "flt _ NInf = False"
| "flt PInf _ = False"
| "flt _ PInf = True"
| "flt NInf _ = True"

definition fgt :: "f64 \<Rightarrow> f64 \<Rightarrow> bool" where
  "fgt a b = flt b a"

text \<open>\<open>a <= b\<close> and \<open>a >= b\<close>, false whenever an operand is NaN.\<close>

definition fle :: "f64 \<Rightarrow> f64 \<Rightarrow> bool" where
  "fle a b = (flt a b \<or> (\<not> isnan a \<and> a = b))"

definition fge :: "f64 \<Rightarrow> f64 \<Rightarrow> bool" where
  "fge a b = fle b a"

text \<open>
  The largest finite float64, which \<open>np.nan_to_num\<close> puts in place of an infinity (for
  an array of another float type it is the largest finite number of that type).
\<close>

definition float_max :: real where
  "float_max = (2 - 1 / 2 ^ 52) * 2 ^ 1023"

fun nan_to_num :: "f64 \<Rightarrow> f64" where
  "nan_to_num NaN = Fin 0"
| "nan_to_num PInf = Fin float_max"
| "nan_to_num NInf = Fin (- float_max)"
| "nan_to_num (Fin x) = Fin x"

text \<open>A Python \<open>int\<close> used where NumPy expects a float.\<close>

definition of_pyint :: "int \<Rightarrow> f64" where
  "of_pyint i = Fin (of_int i)"

section \<open>Arrays of fixed shape\<close>

text \<open>
  The annotations of the source fix the trailing dimensions of every array
  (\<open>Shape["3"]\<close>, \<open>Shape["3, 3"]\<close>, \<open>Shape["4, 4"]\<close>, \<open>Shape["*, *, 3"]\<close>): a dimension
  of fixed size is a tuple, a dimension of any size a list. Matrices are tuples of rows.
\<close>

type_synonym vec3 = "f64 \<times> f64 \<times> f64"
type_synonym vec4 = "f64 \<times> f64 \<times> f64 \<times> f64"
type_synonym mat3 = "vec3 \<times> vec3 \<times> vec3"
type_synonym mat4 = "vec4 \<times> vec4 \<times> vec4 \<times> vec4"

fun vneg :: "vec3 \<Rightarrow> vec3" where
  "vneg (a, b, c) = (fneg a, fneg b, fneg c)"

fun vsub :: "vec3 \<Rightarrow> vec3 \<Rightarrow> vec3" where
  "vsub (a0, a1, a2) (b0, b1, b2) = (fsub a0 b0, fsub a1 b1, fsub a2 b2)"

text \<open>\<open>np.cross\<close> on two 3-vectors.\<close>

fun np_cross :: "vec3 \<Rightarrow> vec3 \<Rightarrow> vec3" where
  "np_cross (a0, a1, a2) (b0, b1, b2) =
     (fsub (fmul a1 b2) (fmul a2 b1),
      fsub (fmul a2 b0) (fmul a0 b2),
      fsub (fmul a0 b1) (fmul a1 b0))"

text \<open>\<open>m[:3, 2]\<close> of a 3x3 matrix: its third column.\<close>

fun col2_of_mat3 :: "mat3 \<Rightarrow> vec3" where
  "col2_of_mat3 ((_, _, a), (_, _, b), (_, _, c)) = (a, b, c)"

definition np_identity4 :: mat4 where
  "np_identity4 =
     ((Fin 1, Fin 0, Fin 0, Fin 0),
      (Fin 0, Fin 1, Fin 0, Fin 0),
      (Fin 0, Fin 0, Fin 1, Fin 0),
      (Fin 0, Fin 0, Fin 0, Fin 1))"

text \<open>
  \<open>row[k] = v\<close> on a row of four. The source writes only the literal indices 0 to 3;
  NumPy raises IndexError for any other, which no call of this theory reaches.
\<close>

fun set4 :: "nat \<Rightarrow> f64 \<Rightarrow> vec4 \<Rightarrow> vec4" where
  "set4 k v (a, b, c, d) =
     (if k = 0 then (v, b, c, d)
      else if k = 1 then (a, v, c, d)
      else if k = 2 then (a, b, v, d)
      else if k = 3 then (a, b, c, v)
      else (a, b, c, d))"

text \<open>\<open>m[:3, k] = v\<close>: column \<open>k\<close> of the first three rows; the fourth row is not touched.\<close>

fun assign_col3 :: "nat \<Rightarrow> vec3 \<Rightarrow> mat4 \<Rightarrow> mat4" where
  "assign_col3 k (v0, v1, v2) (r0, r1, r2, r3) = (set4 k v0 r0, set4 k v1 r1, set4 k v2 r2, r3)"

fun dot4 :: "vec4 \<Rightarrow> vec4 \<Rightarrow> f64" where
  "dot4 (a0, a1, a2, a3) (b0, b1, b2, b3) =
     fadd (fadd (fadd (fmul a0 b0) (fmul a1 b1)) (fmul a2 b2)) (fmul a3 b3)"

fun col4 :: "nat \<Rightarrow> mat4 \<Rightarrow> vec4" where
  "col4 k ((a0, a1, a2, a3), (b0, b1, b2, b3), (c0, c1, c2, c3), (d0, d1, d2, d3)) =
     (if k = 0 then (a0, b0, c0, d0)
      else if k = 1 then (a1, b1, c1, d1)
      else if k = 2 then (a2, b2, c2, d2)
      else (a3, b3, c3, d3))"

definition row_times :: "vec4 \<Rightarrow> mat4 \<Rightarrow> vec4" where
  "row_times r m = (dot4 r (col4 0 m), dot4 r (col4 1 m), dot4 r (col4 2 m), dot4 r (col4 3 m))"

text \<open>The matrix product \<open>a @ b\<close> of two 4x4 matrices.\<close>

fun matmul4 :: "mat4 \<Rightarrow> mat4 \<Rightarrow> mat4" where
  "matmul4 (r0, r1, r2, r3) m = (row_times r0 m, row_times r1 m, row_times r2 m, row_times r3 m)"

section \<open>Pose estimation: the coordinate frame on a plane\<close>

text \<open>
  \<open>_get_transformation_matrix\<close> of \<open>pose_estimation_test.py\<close>: the identity matrix, whose
  first three rows then receive the columns \<open>x_axis\<close>, \<open>y_axis\<close>, \<open>unit_vector\<close> and
  \<open>point\<close>, in this order.
\<close>

definition get_transformation_matrix :: "mat3 \<Rightarrow> vec3 \<Rightarrow> mat4" where
  "get_transformation_matrix u_matrix point =
     (let unit_vector = col2_of_mat3 u_matrix;
          transform = np_identity4;
          unit_x = (Fin 1, Fin 0, Fin 0);
          y_axis = np_cross unit_x (vneg unit_vector);
          x_axis = np_cross y_axis unit_vector;
          transform = assign_col3 0 x_axis transform;
          transform = assign_col3 1 y_axis transform;
          transform = assign_col3 2 unit_vector transform;
          transform = assign_col3 3 point transform
      in transform)"

text \<open>\<open>_get_z_rotation_matrix\<close>: the rotation by \<open>theta\<close> about the z axis, as a 4x4 matrix.\<close>

definition get_z_rotation_matrix :: "f64 \<Rightarrow> mat4" where
  "get_z_rotation_matrix theta =
     ((fcos theta, fneg (fsin theta), Fin 0, Fin 0),
      (fsin theta, fcos theta, Fin 0, Fin 0),
      (Fin 0, Fin 0, Fin 1, Fin 0),
      (Fin 0, Fin 0, Fin 0, Fin 1))"

text \<open>
  The pose of \<open>_display_point_cloud_with_coordinate_frame_on_a_point\<close>:
  \<open>transform @ rotation_matrix\<close>. The visualisation that follows does not change it.
\<close>

definition picking_pose :: "mat3 \<Rightarrow> vec3 \<Rightarrow> f64 \<Rightarrow> mat4" where
  "picking_pose u_matrix point z_rotation =
     (let transform = get_transformation_matrix u_matrix point;
          rotation_matrix = get_z_rotation_matrix z_rotation
      in matmul4 transform rotation_matrix)"

text \<open>The nine entries of the rotation block \<open>m[:3, :3]\<close> are finite numbers.\<close>

fun finite_rotation :: "mat4 \<Rightarrow> bool" where
  "finite_rotation ((a0, a1, a2, _), (b0, b1, b2, _), (c0, c1, c2, _), _) =
     (isfinite a0 \<and> isfinite a1 \<and> isfinite a2 \<and>
      isfinite b0 \<and> isfinite b1 \<and> isfinite b2 \<and>
      isfinite c0 \<and> isfinite c1 \<and> isfinite c2)"

fun hom :: "vec3 \<Rightarrow> vec4" where
  "hom (a, b, c) = (a, b, c, Fin 1)"

section \<open>Pose estimation: region of interest, plane fit, Open3D point cloud\<close>

text \<open>Python exceptions that the scripts raise or let through.\<close>

datatype py_error =
    AssertionError string
  | RuntimeError string
  | UnboundLocalError string
  | IndexError
  | LinAlgError
  | FloatingPointError

definition nan3 :: vec3 where
  "nan3 = (NaN, NaN, NaN)"

fun any_isnan :: "vec3 \<Rightarrow> bool" where
  "any_isnan (a, b, c) = (isnan a \<or> isnan b \<or> isnan c)"

fun all_finite :: "vec3 \<Rightarrow> bool" where
  "all_finite (a, b, c) = (isfinite a \<and> isfinite b \<and> isfinite c)"


text \<open>\<open>np.linalg.norm(v, axis=2)\<close> at one pixel: the square root of the sum of squares.\<close>

fun norm3 :: "vec3 \<Rightarrow> f64" where
  "norm3 (a, b, c) = fsqrt (fadd (fadd (fmul a a) (fmul b b)) (fmul c c))"

text \<open>
  \<open>arr[mask] = np.nan\<close> for a mask of the shape of the image: every pixel the mask selects
  gets NaN in its three coordinates.
\<close>

definition assign_nan_where :: "bool list list \<Rightarrow> vec3 list list \<Rightarrow> vec3 list list" where
  "assign_nan_where msk arr =
     map (\<lambda>(mrow, row). map (\<lambda>(m, p). if m then nan3 else p) (zip mrow row)) (zip msk arr)"










text \<open>
  An Open3D point cloud: its points and its colours. \<open>remove_non_finite_points\<close> is
  Open3D's: it keeps the points that have no NaN coordinate (when \<open>remove_nan\<close>) and
  no infinite one (when \<open>remove_infinite\<close>), and the colours of the kept points when
  the cloud has colours (as many colours as points, and at least one).
\<close>

record o3d_point_cloud =
  o3d_points :: "vec3 list"
  o3d_colors :: "vec3 list"

fun isinf :: "f64 \<Rightarrow> bool" where
  "isinf PInf = True"
| "isinf NInf = True"
| "isinf _ = False"

fun any_isinf :: "vec3 \<Rightarrow> bool" where
  "any_isinf (a, b, c) = (isinf a \<or> isinf b \<or> isinf c)"

definition remove_non_finite_points :: "o3d_point_cloud \<Rightarrow> bool \<Rightarrow> bool \<Rightarrow> o3d_point_cloud" where
  "remove_non_finite_points pc remove_nan remove_infinite =
     (let keep = (\<lambda>p. \<not> (remove_nan \<and> any_isnan p) \<and> \<not> (remove_infinite \<and> any_isinf p));
          has_colors = (o3d_points pc \<noteq> [] \<and> length (o3d_colors pc) = length (o3d_points pc))
      in \<lparr>o3d_points = filter keep (o3d_points pc),
          o3d_colors = (if has_colors
                    then map snd (filter (\<lambda>(p, c). keep p) (zip (o3d_points pc) (o3d_colors pc)))
                    else o3d_colors pc)\<rparr>)"

type_synonym rgba = "f64 \<times> f64 \<times> f64 \<times> f64"

fun nan_to_num3 :: "vec3 \<Rightarrow> vec3" where
  "nan_to_num3 (a, b, c) = (nan_to_num a, nan_to_num b, nan_to_num c)"

fun rgb_of :: "rgba \<Rightarrow> vec3" where
  "rgb_of (r, g, b, _) = (r, g, b)"

fun div255 :: "vec3 \<Rightarrow> vec3" where
  "div255 (r, g, b) = (fdiv r (Fin 255), fdiv g (Fin 255), fdiv b (Fin 255))"

text \<open>
  \<open>_create_open3d_point_cloud\<close>: \<open>np.nan_to_num(xyz).reshape(-1, 3)\<close> and
  \<open>rgba[:, :, 0:3].reshape(-1, 3)\<close> list the pixels in row-major order.
\<close>

definition create_open3d_point_cloud :: "vec3 list list \<Rightarrow> rgba list list \<Rightarrow> o3d_point_cloud" where
  "create_open3d_point_cloud xyz rgba =
     (let xyz_reshaped = concat (map (map nan_to_num3) xyz);
          rgb = concat (map (map rgb_of) rgba);
          point_cloud_open3d = \<lparr>o3d_points = xyz_reshaped, o3d_colors = map div255 rgb\<rparr>;
          refined_point_cloud_open3d = remove_non_finite_points point_cloud_open3d True True
      in refined_point_cloud_open3d)"

text \<open>
  What the two masked assignments of \<open>_roi_between_two_spheres\<close> leave at one pixel \<open>p\<close>,
  for the centroid \<open>c\<close>.
\<close>

definition filtered_pixel :: "vec3 \<Rightarrow> int \<Rightarrow> int \<Rightarrow> vec3 \<Rightarrow> vec3" where
  "filtered_pixel c inner_radius_threshold outer_radius_threshold p =
     (let radius = norm3 (vsub c p);
          p = (if flt radius (of_pyint inner_radius_threshold) then nan3 else p);
          p = (if fgt radius (of_pyint outer_radius_threshold) then nan3 else p)
      in p)"

text \<open>A number that is not negative, \<open>+inf\<close> included; never NaN.\<close>

fun nonneg :: "f64 \<Rightarrow> bool" where
  "nonneg (Fin x) = (0 \<le> x)"
| "nonneg PInf = True"
| "nonneg _ = False"

section \<open>The region of interest on an explicit store\<close>

text \<open>
  NumPy arrays are mutable objects that a caller and a callee share. The store is the list
  of all arrays alive; a reference is an index into it. A new array is appended, so a
  reference stays valid, and \<open>a[...] = v\<close> replaces the cell of \<open>a\<close>. A call that
  receives a reference to an array of another shape than its annotation has no result
  (\<open>None\<close>).
\<close>

datatype ndarray =
    Img "vec3 list list"
  | Arr2 "f64 list list"
  | Pts "vec3 list"
  | Vec3 vec3
  | Mat3 mat3
  | Mat4 mat4

type_synonym store = "ndarray list"
type_synonym ref = nat

definition alloc :: "ndarray \<Rightarrow> store \<Rightarrow> ref \<times> store" where
  "alloc a h = (length h, h @ [a])"

definition deref :: "store \<Rightarrow> ref \<Rightarrow> ndarray option" where
  "deref h r = (if r < length h then Some (h ! r) else None)"

definition deref_img :: "store \<Rightarrow> ref \<Rightarrow> vec3 list list option" where
  "deref_img h r = (case deref h r of Some (Img a) \<Rightarrow> Some a | _ \<Rightarrow> None)"

definition deref_arr2 :: "store \<Rightarrow> ref \<Rightarrow> f64 list list option" where
  "deref_arr2 h r = (case deref h r of Some (Arr2 a) \<Rightarrow> Some a | _ \<Rightarrow> None)"

definition deref_vec3 :: "store \<Rightarrow> ref \<Rightarrow> vec3 option" where
  "deref_vec3 h r = (case deref h r of Some (Vec3 a) \<Rightarrow> Some a | _ \<Rightarrow> None)"

text \<open>
  \<open>_roi_between_two_spheres\<close>: \<open>xyz.copy()\<close> is a new array; the two masked assignments
  write into that copy. The thresholds are Python \<open>int\<close>s, as annotated.
\<close>

definition roi_between_two_spheres :: "store \<Rightarrow> ref \<Rightarrow> ref \<Rightarrow> int \<Rightarrow> int \<Rightarrow> (ref \<times> store) option" where
  "roi_between_two_spheres h xyz centroid inner_radius_threshold outer_radius_threshold = do {
     a \<leftarrow> deref_img h xyz;
     let (xyz_filtered, h) = alloc (Img a) h;
     c \<leftarrow> deref_vec3 h centroid;
     f \<leftarrow> deref_img h xyz_filtered;
     let (radius, h) = alloc (Arr2 (map (map (\<lambda>p. norm3 (vsub c p))) f)) h;
     r \<leftarrow> deref_arr2 h radius;
     f \<leftarrow> deref_img h xyz_filtered;
     let h = h[xyz_filtered :=
                 Img (assign_nan_where (map (map (\<lambda>d. flt d (of_pyint inner_radius_threshold))) r) f)];
     r \<leftarrow> deref_arr2 h radius;
     f \<leftarrow> deref_img h xyz_filtered;
     let h = h[xyz_filtered :=
                 Img (assign_nan_where (map (map (\<lambda>d. fgt d (of_pyint outer_radius_threshold))) r) f)];
     Some (xyz_filtered, h)
   }"

section \<open>The helper functions under NumPy's floating-point error state\<close>

text \<open>
  NumPy keeps, outside every array, a setting for invalid floating-point operations
  (\<open>np.seterr\<close>, \<open>np.errstate\<close>): \<open>ignore\<close>, \<open>warn\<close> (the default), \<open>raise\<close>, \<open>call\<close>,
  \<open>print\<close> or \<open>log\<close>. An operation is invalid when it makes a NaN from operands that are
  not NaN. After a ufunc call in which an operation was invalid, \<open>raise\<close> raises
  FloatingPointError, \<open>ignore\<close> does nothing, and the other settings report (a
  RuntimeWarning, a call of the error callback, a print, a log record) and go on. The
  ambient state is that setting and whether a report has been made; whatever else the
  interpreter holds is the extension of the record. Overflow and underflow have settings
  of their own and do not arise in the exact arithmetic of this theory. The functions of
  the sections above give the values that NumPy computes; here each helper runs in an
  ambient state and returns its result with the state it leaves.
\<close>

datatype err_mode = Ignore | Warn | Raise | Call | Print | Log



















section \<open>Stitching by local point-cloud registration\<close>

text \<open>
  The Zivid SDK is external: its operations on an unorganized point cloud (of any
  representation \<open>'c\<close>) are parameters. \<open>extend_cloud\<close> (the SDK's \<open>extend\<close>) gives
  the value of the extended cloud; \<open>transformed\<close> is the cloud moved by a 4x4 matrix,
  which \<open>transform\<close> does in place; registration takes the target, the source, the
  parameters and the optional initial transform, and reports whether it converged and
  the transform it found. The displays and the export of a cloud do not change it and
  are left out.
\<close>

record reg_params =
  max_iterations :: "nat option"
  max_correspondence_distance :: "real option"

text \<open>\<open>LocalPointCloudRegistrationParameters()\<close>: every parameter at the SDK's default.\<close>

definition default_reg_params :: reg_params where
  "default_reg_params = \<lparr>max_iterations = None, max_correspondence_distance = None\<rparr>"

record reg_result =
  converged :: bool
  transform_matrix :: mat4

record 'c zivid_sdk =
  empty_cloud :: 'c
  extend_cloud :: "'c \<Rightarrow> 'c \<Rightarrow> 'c"
  transformed :: "mat4 \<Rightarrow> 'c \<Rightarrow> 'c"
  voxel_downsampled :: "real \<Rightarrow> nat \<Rightarrow> 'c \<Rightarrow> 'c"
  local_point_cloud_registration :: "'c \<Rightarrow> 'c \<Rightarrow> reg_params \<Rightarrow> mat4 option \<Rightarrow> reg_result"

text \<open>The two clouds a stitching script shows last: the stitched one, and its downsampled copy.\<close>

record 'c stitch_result =
  stitched_cloud :: 'c
  final_cloud :: 'c

text \<open>
  \<open>_main\<close> of \<open>stitch_via_local_point_cloud_registration.py\<close>, from the two unorganized
  clouds of its two files.
\<close>

definition stitch_two_main :: "'c zivid_sdk \<Rightarrow> 'c \<Rightarrow> 'c \<Rightarrow> py_error + 'c stitch_result" where
  "stitch_two_main sdk unorganized_point_cloud_1 unorganized_point_cloud_2 =
     (let unorganized_point_cloud_1_lpcr = voxel_downsampled sdk 1.0 3 unorganized_point_cloud_1;
          unorganized_point_cloud_2_lpcr = voxel_downsampled sdk 1.0 3 unorganized_point_cloud_2;
          registration_params = default_reg_params;
          local_point_cloud_registration_result =
            local_point_cloud_registration sdk unorganized_point_cloud_1_lpcr
              unorganized_point_cloud_2_lpcr registration_params None
      in if \<not> converged local_point_cloud_registration_result
         then Inl (AssertionError ''Registration did not converge...'')
         else
           let point_cloud_1_to_point_cloud_2_transform =
                 transform_matrix local_point_cloud_registration_result;
               final_point_cloud = empty_cloud sdk;
               final_point_cloud = extend_cloud sdk final_point_cloud unorganized_point_cloud_1;
               unorganized_point_cloud_2_transformed =
                 transformed sdk point_cloud_1_to_point_cloud_2_transform unorganized_point_cloud_2;
               final_point_cloud = extend_cloud sdk final_point_cloud unorganized_point_cloud_2_transformed
           in Inr \<lparr>stitched_cloud = final_point_cloud,
                    final_cloud = voxel_downsampled sdk 0.5 1 final_point_cloud\<rparr>)"

text \<open>Python's \<open>xs[i]\<close> for an index that is not negative.\<close>

definition py_index :: "'a list \<Rightarrow> nat \<Rightarrow> py_error + 'a" where
  "py_index xs i = (if i < length xs then Inr (xs ! i) else Inl IndexError)"

text \<open>Python's \<open>str\<close> of a number that is not negative.\<close>

function str_nat :: "nat \<Rightarrow> string" where
  "str_nat n =
     (if n < 10 then [''0123456789'' ! n]
      else str_nat (n div 10) @ [''0123456789'' ! (n mod 10)])"
  by pat_completeness auto
termination
  by (relation "measure id") auto

declare str_nat.simps [simp del]

text \<open>
  The parameters of the shoes script: \<open>max_iterations = 800\<close> and
  \<open>max_correspondence_distance = 15\<close>.
\<close>

definition shoes_reg_params :: reg_params where
  "shoes_reg_params =
     default_reg_params\<lparr>max_iterations := Some 800, max_correspondence_distance := Some 15\<rparr>"

text \<open>
  One registration and stitch of \<open>stitch_via_local_point_cloud_registration_shoes.py\<close>: the
  statements the script runs for the second file, with the first cloud as \<open>target_lpcr\<close>,
  and again in the body of its loop, with the stitched cloud as \<open>target_lpcr\<close>. The
  message of the assertion is given up to the Korean word that ends it.
\<close>

definition shoes_step :: "'c zivid_sdk \<Rightarrow> 'c \<Rightarrow> 'c \<Rightarrow> 'c \<Rightarrow> string \<Rightarrow> py_error + 'c" where
  "shoes_step sdk target_lpcr stitched_point_cloud source file_name =
     (let source_lpcr = source;
          local_point_cloud_registration_result =
            local_point_cloud_registration sdk target_lpcr source_lpcr shoes_reg_params None
      in if \<not> converged local_point_cloud_registration_result
         then Inl (AssertionError (''Registration for '' @ file_name))
         else
           let transform = transform_matrix local_point_cloud_registration_result;
               source_transformed = transformed sdk transform source;
               stitched_point_cloud = extend_cloud sdk stitched_point_cloud source_transformed;
               stitched_point_cloud = voxel_downsampled sdk 1.0 1 stitched_point_cloud
           in Inr stitched_point_cloud)"

text \<open>The loop \<open>for i in range(2, 5)\<close>, over the indices still to come.\<close>

fun shoes_loop :: "'c zivid_sdk \<Rightarrow> 'c list \<Rightarrow> nat list \<Rightarrow> 'c \<Rightarrow> py_error + 'c" where
  "shoes_loop sdk unorganized_point_clouds [] stitched_point_cloud = Inr stitched_point_cloud"
| "shoes_loop sdk unorganized_point_clouds (i # rest) stitched_point_cloud =
     (case py_index unorganized_point_clouds i of
        Inl e \<Rightarrow> Inl e
      | Inr source \<Rightarrow>
          (case shoes_step sdk stitched_point_cloud stitched_point_cloud source
                  (''0'' @ str_nat (i + 1) @ ''.zdf'') of
             Inl e \<Rightarrow> Inl e
           | Inr stitched_point_cloud \<Rightarrow>
               shoes_loop sdk unorganized_point_clouds rest stitched_point_cloud))"

text \<open>
  \<open>_main\<close> of the shoes script, from the unorganized clouds of its five files
  (\<open>01.zdf\<close> to \<open>05.zdf\<close>).
\<close>

definition shoes_main :: "'c zivid_sdk \<Rightarrow> 'c list \<Rightarrow> py_error + 'c stitch_result" where
  "shoes_main sdk unorganized_point_clouds =
     (case py_index unorganized_point_clouds 0 of
        Inl e \<Rightarrow> Inl e
      | Inr first \<Rightarrow>
          let stitched_point_cloud = extend_cloud sdk (empty_cloud sdk) first;
              target_lpcr = first
          in
          (case py_index unorganized_point_clouds 1 of
             Inl e \<Rightarrow> Inl e
           | Inr source \<Rightarrow>
               (case shoes_step sdk target_lpcr stitched_point_cloud source ''02.zdf'' of
                  Inl e \<Rightarrow> Inl e
                | Inr stitched_point_cloud \<Rightarrow>
                    (case shoes_loop sdk unorganized_point_clouds [2..<5] stitched_point_cloud of
                       Inl e \<Rightarrow> Inl e
                     | Inr stitched_point_cloud \<Rightarrow>
                         Inr \<lparr>stitched_cloud = stitched_point_cloud,
                              final_cloud =
                                voxel_downsampled sdk 0.5 1 stitched_point_cloud\<rparr>))))"

text \<open>
  \<open>stitch_continuously_capture_visulaize.py\<close>: the state of its loop, and the loop over
  the capture numbers still to come. \<open>camera k\<close> is the unorganized cloud of capture
  \<open>k\<close>; \<open>np.linalg.inv\<close> is a parameter that raises LinAlgError on a singular matrix.
\<close>

record 'c capture_state =
  previous_to_current_point_cloud_transform :: mat4
  unorganized_stitched_point_cloud :: 'c

fun capture_loop ::
  "'c zivid_sdk \<Rightarrow> (mat4 \<Rightarrow> py_error + mat4) \<Rightarrow> (nat \<Rightarrow> 'c) \<Rightarrow> nat list \<Rightarrow>
   'c capture_state \<Rightarrow> py_error + 'c capture_state" where
  "capture_loop sdk np_linalg_inv camera [] st = Inr st"
| "capture_loop sdk np_linalg_inv camera (number_of_captures # rest) st =
     (let unorganized_point_cloud = voxel_downsampled sdk 1.0 2 (camera number_of_captures)
      in if number_of_captures \<noteq> 0
         then
           let local_point_cloud_registration_result =
                 local_point_cloud_registration sdk (unorganized_stitched_point_cloud st)
                   unorganized_point_cloud default_reg_params
                   (Some (previous_to_current_point_cloud_transform st))
           in if \<not> converged local_point_cloud_registration_result
              then capture_loop sdk np_linalg_inv camera rest st
              else
                let t = transform_matrix local_point_cloud_registration_result
                in (case np_linalg_inv t of
                      Inl e \<Rightarrow> Inl e
                    | Inr t_inv \<Rightarrow>
                        capture_loop sdk np_linalg_inv camera rest
                          \<lparr>previous_to_current_point_cloud_transform = t,
                           unorganized_stitched_point_cloud =
                             extend_cloud sdk (transformed sdk t_inv (unorganized_stitched_point_cloud st))
                               unorganized_point_cloud\<rparr>)
         else capture_loop sdk np_linalg_inv camera rest
                (st\<lparr>unorganized_stitched_point_cloud :=
                      extend_cloud sdk (unorganized_stitched_point_cloud st) unorganized_point_cloud\<rparr>))"

definition capture_main ::
  "'c zivid_sdk \<Rightarrow> (mat4 \<Rightarrow> py_error + mat4) \<Rightarrow> (nat \<Rightarrow> 'c) \<Rightarrow> py_error + 'c stitch_result" where
  "capture_main sdk np_linalg_inv camera =
     (case capture_loop sdk np_linalg_inv camera [0..<20]
             \<lparr>previous_to_current_point_cloud_transform = np_identity4,
              unorganized_stitched_point_cloud = empty_cloud sdk\<rparr> of
        Inl e \<Rightarrow> Inl e
      | Inr st \<Rightarrow>
          Inr \<lparr>stitched_cloud = unorganized_stitched_point_cloud st,
               final_cloud = voxel_downsampled sdk 0.75 2 (unorganized_stitched_point_cloud st)\<rparr>)"

text \<open>
  A concrete SDK on which to run the scripts: a cloud is the list of its points,
  \<open>extend_cloud\<close> appends, \<open>transformed\<close> moves every point by the matrix, downsampling
  returns the cloud as it is, and registration answers with a fixed result.
\<close>

fun apply_affine :: "mat4 \<Rightarrow> vec3 \<Rightarrow> vec3" where
  "apply_affine (r0, r1, r2, r3) (x, y, z) =
     (dot4 r0 (x, y, z, Fin 1), dot4 r1 (x, y, z, Fin 1), dot4 r2 (x, y, z, Fin 1))"

definition list_sdk :: "reg_result \<Rightarrow> (vec3 list) zivid_sdk" where
  "list_sdk answer =
     \<lparr>empty_cloud = [],
      extend_cloud = (\<lambda>a b. a @ b),
      transformed = (\<lambda>m c. map (apply_affine m) c),
      voxel_downsampled = (\<lambda>voxel_size min_points_per_voxel c. c),
      local_point_cloud_registration = (\<lambda>target source parameters initial_transform. answer)\<rparr>"

text \<open>The translation by \<open>(x, y, z)\<close> as a 4x4 matrix.\<close>

definition translation :: "real \<Rightarrow> real \<Rightarrow> real \<Rightarrow> mat4" where
  "translation x y z =
     ((Fin 1, Fin 0, Fin 0, Fin x),
      (Fin 0, Fin 1, Fin 0, Fin y),
      (Fin 0, Fin 0, Fin 1, Fin z),
      (Fin 0, Fin 0, Fin 0, Fin 1))"

text \<open>An inverse that knows the translations along x by one unit, and fails elsewhere.\<close>

definition inv_unit_shift :: "mat4 \<Rightarrow> py_error + mat4" where
  "inv_unit_shift m =
     (if m = translation 1 0 0 then Inr (translation (- 1) 0 0)
      else if m = translation (- 1) 0 0 then Inr (translation 1 0 0)
      else Inl LinAlgError)"

section \<open>Multi-camera calibration and stitching\<close>

text \<open>
  \<open>main\<close> of \<open>multicam_cal.py\<close>, first loop. \<open>files idata\<close> is the frame of
  \<open>img<idata>.zdf\<close> when that file exists, \<open>frame_file_path idata\<close> its path;
  \<open>detect\<close> and \<open>valid\<close> are the SDK's feature-point detection and the validity of its
  result. The loop ends at the first number that has no file.
\<close>

partial_function (option) detect_loop ::
  "(nat \<Rightarrow> 'f option) \<Rightarrow> (nat \<Rightarrow> string) \<Rightarrow> ('f \<Rightarrow> 'd) \<Rightarrow> ('d \<Rightarrow> bool) \<Rightarrow>
   nat \<Rightarrow> 'd list \<Rightarrow> (py_error + 'd list) option" where
  "detect_loop files frame_file_path detect valid idata calibration_inputs =
     (case files idata of
        Some frame \<Rightarrow>
          (let detection_result = detect frame
           in if \<not> valid detection_result
              then Some (Inl (RuntimeError
                     (''Failed to detect feature points from frame '' @ frame_file_path idata)))
              else detect_loop files frame_file_path detect valid (idata + 1)
                     (calibration_inputs @ [detection_result]))
      | None \<Rightarrow> Some (Inr calibration_inputs))"

text \<open>
  The second loop. An organized point cloud gives its \<open>xyz\<close> and \<open>rgba\<close> images;
  \<open>pc_transform\<close> is the SDK's \<open>point_cloud.transform\<close>. \<open>stitched_xyz\<close> and
  \<open>stitched_rgb\<close> are unbound (\<open>None\<close>) until the pass for \<open>i = 0\<close> binds them.
\<close>

record organized_pc =
  pc_xyz :: "vec3 list list"
  pc_rgba :: "rgba list list"

record stitch_state =
  idata :: nat
  stitched :: "(vec3 list \<times> vec3 list) option"

definition frame_xyz :: "organized_pc \<Rightarrow> vec3 list" where
  "frame_xyz pc = concat (map (map nan_to_num3) (pc_xyz pc))"

definition frame_rgb :: "organized_pc \<Rightarrow> vec3 list" where
  "frame_rgb pc = concat (map (map rgb_of) (pc_rgba pc))"

fun stitch_loop ::
  "(mat4 \<Rightarrow> organized_pc \<Rightarrow> organized_pc) \<Rightarrow> (nat \<Rightarrow> organized_pc option) \<Rightarrow> mat4 list \<Rightarrow>
   nat list \<Rightarrow> stitch_state \<Rightarrow> py_error + stitch_state" where
  "stitch_loop pc_transform files transforms [] st = Inr st"
| "stitch_loop pc_transform files transforms (i # rest) st =
     (case files (idata st) of
        Some point_cloud \<Rightarrow>
          (case py_index transforms i of
             Inl e \<Rightarrow> Inl e
           | Inr t \<Rightarrow>
               let point_cloud = pc_transform t point_cloud;
                   xyz = frame_xyz point_cloud;
                   rgb = frame_rgb point_cloud
               in if i = 0
                  then stitch_loop pc_transform files transforms rest
                         \<lparr>idata = idata st + 1, stitched = Some (xyz, rgb)\<rparr>
                  else (case stitched st of
                          None \<Rightarrow> Inl (UnboundLocalError ''stitched_xyz'')
                        | Some (stitched_xyz, stitched_rgb) \<Rightarrow>
                            stitch_loop pc_transform files transforms rest
                              \<lparr>idata = idata st + 1,
                               stitched = Some (stitched_xyz @ xyz, stitched_rgb @ rgb)\<rparr>))
      | None \<Rightarrow> stitch_loop pc_transform files transforms rest (st\<lparr>idata := idata st + 1\<rparr>))"

text \<open>The loop as \<open>main\<close> runs it: \<open>idata = 1\<close>, nothing stitched, \<open>i\<close> over \<open>range(len(transforms))\<close>.\<close>

definition stitch_frames ::
  "(mat4 \<Rightarrow> organized_pc \<Rightarrow> organized_pc) \<Rightarrow> (nat \<Rightarrow> organized_pc option) \<Rightarrow> mat4 list \<Rightarrow>
   py_error + stitch_state" where
  "stitch_frames pc_transform files transforms =
     stitch_loop pc_transform files transforms [0..<length transforms] \<lparr>idata = 1, stitched = None\<rparr>"

section \<open>Robot communication: the start of the RTDE session\<close>

text \<open>
  \<open>_initialize_robot_sync\<close> of \<open>universal_robots_comm_test.py\<close>. The connection is what
  the robot answers to each request; the function returns the requests it sent, in
  order, with its result.
\<close>

datatype rtde_call = Connect | NegotiateProtocolVersion | SendOutputSetup | SendInputSetup | SendStart

record 'd rtde_con =
  negotiate_protocol_version :: bool
  send_output_setup :: bool
  send_input_setup :: 'd
  send_start :: bool

definition initialize_robot_sync :: "'d rtde_con \<Rightarrow> rtde_call list \<times> (py_error + 'd)" where
  "initialize_robot_sync con =
     (let calls = [Connect];
          calls = calls @ [NegotiateProtocolVersion]
      in if \<not> negotiate_protocol_version con
         then (calls, Inl (RuntimeError ''Protocol do not match''))
         else
           let calls = calls @ [SendOutputSetup]
           in if \<not> send_output_setup con
              then (calls, Inl (RuntimeError ''Unable to configure output''))
              else
                let calls = calls @ [SendInputSetup];
                    robot_input_data = send_input_setup con;
                    calls = calls @ [SendStart]
                in if \<not> send_start con
                   then (calls, Inl (RuntimeError ''Unable to start synchronization''))
                   else (calls, Inr robot_input_data))"

section \<open>Inputs on which the scripts are run\<close>

text \<open>
  A solver for the matrices \<open>diag(a, b, 0)\<close> with \<open>a\<close> and \<open>b\<close> not negative: the singular
  values are the larger and the smaller of \<open>a\<close> and \<open>b\<close> and 0, and \<open>U\<close> and \<open>Vh\<close> are
  the identity when \<open>a\<close> is the larger, else the exchange of the first two axes. On
  every other matrix it does not converge.
\<close>

definition unit3 :: mat3 where
  "unit3 = ((Fin 1, Fin 0, Fin 0), (Fin 0, Fin 1, Fin 0), (Fin 0, Fin 0, Fin 1))"







text \<open>
  Two answers of the registration: converged with the translation by one unit along x,
  and not converged. A camera whose capture \<open>k\<close> is the one point \<open>(k, 0, 0)\<close>.
\<close>

definition shift_answer :: reg_result where
  "shift_answer = \<lparr>converged = True, transform_matrix = translation 1 0 0\<rparr>"

definition no_answer :: reg_result where
  "no_answer = \<lparr>converged = False, transform_matrix = np_identity4\<rparr>"

definition line_camera :: "nat \<Rightarrow> vec3 list" where
  "line_camera k = [(Fin (real k), Fin 0, Fin 0)]"

text \<open>
  Two calibration frames (a frame is a number here, its detection the number itself),
  two test frames, and the SDK's in-place transform as the affine map on every pixel.
\<close>

definition two_frames :: "nat \<Rightarrow> nat option" where
  "two_frames k = (if k = 1 then Some 10 else if k = 2 then Some 20 else None)"

definition move_xyz :: "mat4 \<Rightarrow> organized_pc \<Rightarrow> organized_pc" where
  "move_xyz m pc = pc\<lparr>pc_xyz := map (map (apply_affine m)) (pc_xyz pc)\<rparr>"

definition two_test_frames :: "nat \<Rightarrow> organized_pc option" where
  "two_test_frames k =
     (if k = 1 then Some \<lparr>pc_xyz = [[(Fin 0, Fin 0, Fin 0), (NaN, NaN, NaN)]],
                            pc_rgba = [[(Fin 1, Fin 2, Fin 3, Fin 255), (Fin 0, Fin 0, Fin 0, Fin 255)]]\<rparr>
      else if k = 2 then Some \<lparr>pc_xyz = [[(Fin 5, Fin 0, Fin 0)]],
                                 pc_rgba = [[(Fin 7, Fin 8, Fin 9, Fin 255)]]\<rparr>
      else None)"

section \<open>Facts about the float64 operations\<close>

lemma fmul_finite_zero [simp]: "isfinite a \<Longrightarrow> fmul a (Fin 0) = Fin 0"
  by (cases a) simp_all

lemma fmul_one [simp]: "fmul a (Fin 1) = a"
  by (cases a) (simp_all add: inf_times_def)

lemma fadd_zero_left [simp]: "fadd (Fin 0) a = a"
  by (cases a) simp_all

lemma nonneg_not_nan: "nonneg a \<Longrightarrow> \<not> isnan a"
  by (cases a) simp_all

lemma nonneg_square_diff: "\<not> isnan a \<Longrightarrow> nonneg (fmul (fsub a (Fin y)) (fsub a (Fin y)))"
  by (cases a) (simp_all add: fsub_def)

lemma nonneg_fadd: "nonneg a \<Longrightarrow> nonneg b \<Longrightarrow> nonneg (fadd a b)"
  by (cases a; cases b) simp_all

lemma nonneg_fsqrt: "nonneg a \<Longrightarrow> nonneg (fsqrt a)"
  by (cases a) simp_all

lemma isnan_fadd_left: "isnan a \<Longrightarrow> fadd a b = NaN"
  by (cases a) simp_all

lemma isnan_fadd_right: "isnan b \<Longrightarrow> fadd a b = NaN"
  by (cases b; cases a) simp_all

lemma isnan_fsub_left: "isnan a \<Longrightarrow> fsub a b = NaN"
  by (cases a) (simp_all add: fsub_def)

lemma not_flt_iff_fle: "\<not> isnan a \<Longrightarrow> \<not> isnan b \<Longrightarrow> (\<not> flt a b) = fle b a"
  by (cases a; cases b) (auto simp: fle_def)

lemma flt_nan_right: "flt a NaN = False"
  by (cases a) simp_all

lemma sqrt25: "sqrt 25 = 5" by (simp add: real_sqrt_unique)
lemma sqrt400: "sqrt 400 = 20" by (simp add: real_sqrt_unique)

section \<open>The frame on the plane\<close>

text \<open>
  C2. For every 3x3 \<open>u_matrix\<close> and every 3-vector \<open>point\<close>, the matrix that
  \<open>_get_transformation_matrix\<close> returns has, with \<open>z\<close> the third column of \<open>u_matrix\<close>:
  second column \<open>(1,0,0) x (-z)\<close>, first column that second column crossed with \<open>z\<close>,
  third column \<open>z\<close>, fourth column \<open>point\<close>, and last row \<open>(0,0,0,1)\<close>.
\<close>

theorem get_transformation_matrix_frame:
  "get_transformation_matrix ((u00, u01, u02), (u10, u11, u12), (u20, u21, u22)) (p0, p1, p2) =
     (case np_cross (Fin 1, Fin 0, Fin 0) (vneg (u02, u12, u22)) of (y0, y1, y2) \<Rightarrow>
      case np_cross (y0, y1, y2) (u02, u12, u22) of (x0, x1, x2) \<Rightarrow>
        ((x0, y0, u02, p0),
         (x1, y1, u12, p1),
         (x2, y2, u22, p2),
         (Fin 0, Fin 0, Fin 0, Fin 1)))"
  by (simp add: get_transformation_matrix_def np_identity4_def Let_def)

text \<open>
  C9, as the code has it. Whenever the three axis columns of the transformation matrix
  are finite numbers, the pose \<open>_get_transformation_matrix(u_matrix, point) @
  _get_z_rotation_matrix(theta)\<close> has the fourth column \<open>(point, 1)\<close>, for every point and
  every angle; and \<open>_get_z_rotation_matrix(0)\<close> is the 4x4 identity matrix.
\<close>

theorem picking_pose_translation:
  "(finite_rotation (get_transformation_matrix u p) \<longrightarrow>
      col4 3 (picking_pose u p theta) = hom p) \<and>
   get_z_rotation_matrix (Fin 0) = np_identity4"
proof (intro conjI impI)
  assume fin: "finite_rotation (get_transformation_matrix u p)"
  obtain u00 u01 u02 u10 u11 u12 u20 u21 u22
    where u: "u = ((u00, u01, u02), (u10, u11, u12), (u20, u21, u22))"
    by (metis prod_cases3)
  obtain p0 p1 p2 where p: "p = (p0, p1, p2)" by (metis prod_cases3)
  obtain y0 y1 y2 where y: "np_cross (Fin 1, Fin 0, Fin 0) (vneg (u02, u12, u22)) = (y0, y1, y2)"
    by (metis prod_cases3)
  obtain x0 x1 x2 where x: "np_cross (y0, y1, y2) (u02, u12, u22) = (x0, x1, x2)"
    by (metis prod_cases3)
  have T: "get_transformation_matrix u p =
        ((x0, y0, u02, p0), (x1, y1, u12, p1), (x2, y2, u22, p2), (Fin 0, Fin 0, Fin 0, Fin 1))"
    unfolding u p get_transformation_matrix_def Let_def col2_of_mat3.simps y x
    by (simp add: np_identity4_def)
  from fin show "col4 3 (picking_pose u p theta) = hom p"
    unfolding picking_pose_def Let_def T
    by (simp add: get_z_rotation_matrix_def row_times_def p)
next
  show "get_z_rotation_matrix (Fin 0) = np_identity4"
    by (simp add: get_z_rotation_matrix_def np_identity4_def)
qed

text \<open>The pose on the identity frame at the point \<open>(1, 2, 3)\<close>, turned by a quarter.\<close>

theorem picking_pose_translation_witness:
  "finite_rotation (get_transformation_matrix unit3 (Fin 1, Fin 2, Fin 3))
   \<and> col4 3 (picking_pose unit3 (Fin 1, Fin 2, Fin 3) (Fin (pi / 2))) = (Fin 1, Fin 2, Fin 3, Fin 1)
   \<and> get_z_rotation_matrix (Fin 0) = np_identity4"
  using picking_pose_translation [of unit3 "(Fin 1, Fin 2, Fin 3)" "Fin (pi / 2)"]
  by (simp add: get_transformation_matrix_def np_identity4_def Let_def fsub_def unit3_def)

text \<open>
  C9 as stated fails where the third column of \<open>u_matrix\<close> holds a NaN: the axis columns
  are then NaN, and \<open>NaN * 0\<close> is NaN, so the fourth column of the pose is not the point.
\<close>

theorem picking_pose_nan_axis_counterexample:
  "col4 3 (picking_pose ((Fin 1, Fin 0, NaN), (Fin 0, Fin 1, Fin 0), (Fin 0, Fin 0, Fin 1))
             (Fin 1, Fin 2, Fin 3) (Fin 0))
     \<noteq> hom (Fin 1, Fin 2, Fin 3)"
  by (simp add: picking_pose_def get_transformation_matrix_def np_identity4_def Let_def fsub_def
      get_z_rotation_matrix_def row_times_def)

section \<open>The plane fit\<close>































section \<open>The Open3D point cloud\<close>

lemma nan_to_num3_kept: "\<not> any_isnan (nan_to_num3 p) \<and> \<not> any_isinf (nan_to_num3 p)"
proof -
  have "\<And>a. \<not> isnan (nan_to_num a) \<and> \<not> isinf (nan_to_num a)"
    subgoal for a by (cases a) simp_all
    done
  then show ?thesis by (cases p) simp
qed

lemma filter_nan_to_num3:
  "filter (\<lambda>p. \<not> any_isnan p \<and> \<not> any_isinf p) (map nan_to_num3 xs) = map nan_to_num3 xs"
  by (induction xs) (simp_all add: nan_to_num3_kept)

lemma concat_map_map: "concat (map (map f) xss) = map f (concat xss)"
  by (simp add: map_concat)

text \<open>
  C6, as the code has it. \<open>_create_open3d_point_cloud\<close> replaces every NaN coordinate by 0
  before the removal of non-finite points, which then removes nothing: the returned cloud
  holds every pixel of \<open>xyz\<close>, in row-major order, each coordinate passed through
  \<open>nan_to_num\<close> (NaN becomes 0, a finite number stays). A pixel whose three coordinates
  are NaN is the point \<open>(0, 0, 0)\<close> of the cloud.
\<close>

theorem create_open3d_point_cloud_keeps_every_pixel:
  "o3d_points (create_open3d_point_cloud xyz rgba) = map nan_to_num3 (concat xyz)
   \<and> length (o3d_points (create_open3d_point_cloud xyz rgba)) = length (concat xyz)
   \<and> nan_to_num NaN = Fin 0
   \<and> nan_to_num (Fin x) = Fin x
   \<and> nan_to_num3 (NaN, NaN, NaN) = (Fin 0, Fin 0, Fin 0)"
  by (simp add: create_open3d_point_cloud_def remove_non_finite_points_def Let_def concat_map_map
      filter_nan_to_num3)

text \<open>
  C6 as stated fails for a pixel with one NaN coordinate: \<open>(NaN, 1, 2)\<close> is in the cloud
  as \<open>(0, 1, 2)\<close>, not at the origin.
\<close>

theorem create_open3d_point_cloud_partial_nan_counterexample:
  "any_isnan (NaN, Fin 1, Fin 2)
   \<and> o3d_points (create_open3d_point_cloud [[(NaN, Fin 1, Fin 2)]] [[(Fin 10, Fin 20, Fin 30, Fin 255)]])
       = [(Fin 0, Fin 1, Fin 2)]
   \<and> (Fin 0, Fin 1, Fin 2) \<noteq> (Fin 0, Fin 0, Fin (0::real))"
  by (simp add: create_open3d_point_cloud_def remove_non_finite_points_def Let_def)

section \<open>The region of interest on the store\<close>

lemma deref_alloc_new [simp]: "deref (h @ [a]) (length h) = Some a"
  by (simp add: deref_def)

lemma deref_alloc_old [simp]: "r < length h \<Longrightarrow> deref (h @ a) r = deref h r"
  by (simp add: deref_def nth_append)

lemma deref_Some_less: "deref h r = Some a \<Longrightarrow> r < length h"
  by (simp add: deref_def split: if_splits)

lemma deref_update_same [simp]: "r < length h \<Longrightarrow> deref (h[r := a]) r = Some a"
  by (simp add: deref_def)

lemma deref_update_other [simp]: "r \<noteq> q \<Longrightarrow> deref (h[q := a]) r = deref h r"
  by (simp add: deref_def)

lemma zip_map_same: "zip (map f xs) (map g xs) = map (\<lambda>x. (f x, g x)) xs"
  by (induction xs) simp_all

lemma assign_nan_where_maps:
  "assign_nan_where (map (map m) a) (map (map k) a) = map (map (\<lambda>p. if m p then nan3 else k p)) a"
  by (simp add: assign_nan_where_def zip_map_same comp_def)

lemma assign_nan_where_maps_id:
  "assign_nan_where (map (map m) a) a = map (map (\<lambda>p. if m p then nan3 else p)) a"
  using assign_nan_where_maps [of m a "\<lambda>p. p"] by simp

lemma roi_closed:
  assumes "deref h xyz = Some (Img a)" and "deref h centroid = Some (Vec3 c)"
  shows "roi_between_two_spheres h xyz centroid inner outer =
           Some (length h,
                 h @ [Img (map (map (filtered_pixel c inner outer)) a),
                      Arr2 (map (map (\<lambda>p. norm3 (vsub c p))) a)])"
proof -
  have lx: "xyz < length h" and lc: "centroid < length h"
    using assms by (auto dest: deref_Some_less)
  let ?r = "map (map (\<lambda>p. norm3 (vsub c p))) a"
  have d1: "deref ((h @ [Img a]) @ [Arr2 ?r]) (length h) = Some (Img a)"
    by (simp add: deref_def nth_append)
  have d2: "deref ((h @ [Img a]) @ [Arr2 ?r]) (Suc (length h)) = Some (Arr2 ?r)"
    by (simp add: deref_def nth_append)
  show ?thesis
    using assms lx lc
    by (simp add: roi_between_two_spheres_def alloc_def deref_img_def deref_vec3_def
        deref_arr2_def deref_def nth_append list_update_append
        assign_nan_where_maps assign_nan_where_maps_id filtered_pixel_def Let_def)
qed

lemma norm3_not_nan:
  assumes "all_finite p" and "\<not> any_isnan c"
  shows "\<not> isnan (norm3 (vsub c p))"
proof -
  obtain p0 p1 p2 where p: "p = (p0, p1, p2)" by (metis prod_cases3)
  obtain q0 q1 q2 where c: "c = (q0, q1, q2)" by (metis prod_cases3)
  from assms(1) obtain x0 x1 x2 where x: "p0 = Fin x0" "p1 = Fin x1" "p2 = Fin x2"
    unfolding p by (cases p0; cases p1; cases p2) simp_all
  from assms(2) have n: "\<not> isnan q0" "\<not> isnan q1" "\<not> isnan q2"
    unfolding c by simp_all
  have "nonneg (norm3 (vsub c p))"
    unfolding p c x
    by (simp add: nonneg_fsqrt nonneg_fadd nonneg_square_diff n)
  then show ?thesis by (rule nonneg_not_nan)
qed

lemma norm3_nan_centroid:
  assumes "any_isnan c"
  shows "norm3 (vsub c p) = NaN"
proof -
  obtain p0 p1 p2 where p: "p = (p0, p1, p2)" by (metis prod_cases3)
  obtain q0 q1 q2 where c: "c = (q0, q1, q2)" by (metis prod_cases3)
  from assms consider "isnan q0" | "isnan q1" | "isnan q2"
    unfolding c by auto
  then show ?thesis
  proof cases
    case 1
    then show ?thesis unfolding p c
      by (simp add: isnan_fsub_left isnan_fadd_left)
  next
    case 2
    then show ?thesis unfolding p c
      by (simp add: isnan_fsub_left isnan_fadd_left isnan_fadd_right)
  next
    case 3
    then show ?thesis unfolding p c
      by (simp add: isnan_fsub_left isnan_fadd_right)
  qed
qed

lemma all_finite_not_nan3: "all_finite p \<Longrightarrow> p \<noteq> nan3"
  by (cases p) (auto simp: nan3_def)

lemma filtered_pixel_finite:
  assumes "all_finite p" and "\<not> any_isnan c"
  shows "(filtered_pixel c inner outer p = p) =
           (fle (of_pyint inner) (norm3 (vsub c p)) \<and> fle (norm3 (vsub c p)) (of_pyint outer))"
proof -
  have d: "\<not> isnan (norm3 (vsub c p))" using assms by (rule norm3_not_nan)
  have i: "\<not> isnan (of_pyint inner)" "\<not> isnan (of_pyint outer)" by (simp_all add: of_pyint_def)
  have "(filtered_pixel c inner outer p = p) =
          (\<not> flt (norm3 (vsub c p)) (of_pyint inner) \<and> \<not> flt (of_pyint outer) (norm3 (vsub c p)))"
    using all_finite_not_nan3 [OF assms(1)]
    by (auto simp: filtered_pixel_def Let_def fgt_def)
  then show ?thesis
    by (simp add: not_flt_iff_fle d i)
qed

lemma filtered_pixel_cases: "filtered_pixel c inner outer p = p \<or> filtered_pixel c inner outer p = nan3"
  by (simp add: filtered_pixel_def Let_def)

lemma filtered_pixel_nan_centroid: "any_isnan c \<Longrightarrow> filtered_pixel c inner outer p = p"
  by (simp add: filtered_pixel_def Let_def norm3_nan_centroid fgt_def flt_nan_right)

text \<open>
  C10, as the code has it. \<open>_roi_between_two_spheres\<close> writes into a copy: it returns a
  new array, and every array of the caller, \<open>xyz\<close> among them, is as before. The new
  array has the shape of \<open>xyz\<close> and holds at every pixel what the two masked assignments
  leave. When the centroid has no NaN coordinate, a pixel whose coordinates are all
  finite keeps its coordinates if and only if its distance to the centroid is at least
  \<open>inner_radius_threshold\<close> and at most \<open>outer_radius_threshold\<close>, and otherwise all its
  coordinates are NaN. When the centroid has a NaN coordinate, every pixel is kept as it is.
\<close>

theorem roi_between_two_spheres_copy_and_filter:
  assumes "deref h xyz = Some (Img a)" and "deref h centroid = Some (Vec3 c)"
  shows "(let b = map (map (filtered_pixel c inner outer)) a;
              h' = h @ [Img b, Arr2 (map (map (\<lambda>p. norm3 (vsub c p))) a)]
          in roi_between_two_spheres h xyz centroid inner outer = Some (length h, h')
             \<and> take (length h) h' = h
             \<and> deref h' xyz = Some (Img a)
             \<and> deref h' (length h) = Some (Img b)
             \<and> xyz \<noteq> length h)
         \<and> (\<forall>p. all_finite p \<and> \<not> any_isnan c \<longrightarrow>
               ((filtered_pixel c inner outer p = p) =
                  (fle (of_pyint inner) (norm3 (vsub c p)) \<and> fle (norm3 (vsub c p)) (of_pyint outer)))
               \<and> (filtered_pixel c inner outer p = p \<or> filtered_pixel c inner outer p = nan3))
         \<and> (\<forall>p. any_isnan c \<longrightarrow> filtered_pixel c inner outer p = p)"
proof (intro conjI allI impI)
  have lx: "xyz < length h" using assms(1) by (rule deref_Some_less)
  show "let b = map (map (filtered_pixel c inner outer)) a;
            h' = h @ [Img b, Arr2 (map (map (\<lambda>p. norm3 (vsub c p))) a)]
        in roi_between_two_spheres h xyz centroid inner outer = Some (length h, h')
           \<and> take (length h) h' = h
           \<and> deref h' xyz = Some (Img a)
           \<and> deref h' (length h) = Some (Img b)
           \<and> xyz \<noteq> length h"
    using roi_closed [OF assms, of inner outer] lx assms(1)
    by (simp add: Let_def deref_def nth_append)
next
  fix p assume "all_finite p \<and> \<not> any_isnan c"
  then show "(filtered_pixel c inner outer p = p) =
      (fle (of_pyint inner) (norm3 (vsub c p)) \<and> fle (norm3 (vsub c p)) (of_pyint outer))"
    by (simp add: filtered_pixel_finite)
next
  fix p
  show "filtered_pixel c inner outer p = p \<or> filtered_pixel c inner outer p = nan3"
    by (rule filtered_pixel_cases)
next
  fix p assume "any_isnan c"
  then show "filtered_pixel c inner outer p = p"
    by (rule filtered_pixel_nan_centroid)
qed

text \<open>Three pixels at the distances 0, 5 and 20 from the centroid, thresholds 1 and 10.\<close>

theorem roi_between_two_spheres_copy_and_filter_witness:
  "deref [Img [[(Fin 0, Fin 0, Fin 0), (Fin 3, Fin 4, Fin 0), (Fin 20, Fin 0, Fin 0)]], Vec3 (Fin 0, Fin 0, Fin 0)] 0
      = Some (Img [[(Fin 0, Fin 0, Fin 0), (Fin 3, Fin 4, Fin 0), (Fin 20, Fin 0, Fin 0)]])
   \<and> deref [Img [[(Fin 0, Fin 0, Fin 0), (Fin 3, Fin 4, Fin 0), (Fin 20, Fin 0, Fin 0)]], Vec3 (Fin 0, Fin 0, Fin 0)] 1
      = Some (Vec3 (Fin 0, Fin 0, Fin 0))
   \<and> roi_between_two_spheres
        [Img [[(Fin 0, Fin 0, Fin 0), (Fin 3, Fin 4, Fin 0), (Fin 20, Fin 0, Fin 0)]], Vec3 (Fin 0, Fin 0, Fin 0)] 0 1 1 10
      = Some (2, [Img [[(Fin 0, Fin 0, Fin 0), (Fin 3, Fin 4, Fin 0), (Fin 20, Fin 0, Fin 0)]],
                  Vec3 (Fin 0, Fin 0, Fin 0),
                  Img [[(NaN, NaN, NaN), (Fin 3, Fin 4, Fin 0), (NaN, NaN, NaN)]],
                  Arr2 [[Fin 0, Fin 5, Fin 20]]])"
  using roi_between_two_spheres_copy_and_filter
    [of "[Img [[(Fin 0, Fin 0, Fin 0), (Fin 3, Fin 4, Fin 0), (Fin 20, Fin 0, Fin 0)]], Vec3 (Fin 0, Fin 0, Fin 0)]"
        0 "[[(Fin 0, Fin 0, Fin 0), (Fin 3, Fin 4, Fin 0), (Fin 20, Fin 0, Fin 0)]]" 1 "(Fin 0, Fin 0, Fin 0)" 1 10]
  by (simp add: deref_def Let_def filtered_pixel_def fsub_def of_pyint_def fgt_def nan3_def sqrt25 sqrt400)

text \<open>
  C10 as stated fails for a centroid with a NaN coordinate: the distance is NaN, both
  comparisons are false, and the finite pixel \<open>(100, 0, 0)\<close> is kept although its distance
  is neither at least 0 nor at most 10.
\<close>

theorem roi_nan_centroid_counterexample:
  "roi_between_two_spheres [Img [[(Fin 100, Fin 0, Fin 0)]], Vec3 (NaN, Fin 0, Fin 0)] 0 1 0 10
      = Some (2, [Img [[(Fin 100, Fin 0, Fin 0)]], Vec3 (NaN, Fin 0, Fin 0),
                  Img [[(Fin 100, Fin 0, Fin 0)]], Arr2 [[NaN]]])
   \<and> all_finite (Fin 100, Fin 0, Fin 0)
   \<and> \<not> (fle (of_pyint 0) (norm3 (vsub (NaN, Fin 0, Fin 0) (Fin 100, Fin 0, Fin 0)))
         \<and> fle (norm3 (vsub (NaN, Fin 0, Fin 0) (Fin 100, Fin 0, Fin 0))) (of_pyint 10))"
  by (simp add: roi_between_two_spheres_def alloc_def deref_img_def deref_vec3_def deref_arr2_def
      deref_def assign_nan_where_def fsub_def of_pyint_def fgt_def fle_def nan3_def)

section \<open>The helper functions and the floating-point error state\<close>





















section \<open>The stitching loops\<close>

lemma apply_shift: "apply_affine (translation t 0 0) (Fin x, Fin y, Fin z) = (Fin (x + t), Fin y, Fin z)"
  by (simp add: translation_def)

lemma five_indices: "[2..<5] = [2, 3, 4]"
  by (simp add: upt_rec)

text \<open>
  C3, as the code has it. In the script of two clouds and in the shoes script, a
  registration that converges extends the accumulated cloud by the new cloud moved by
  the registration transform (followed, in the shoes script, by voxel downsampling), and
  the shoes script registers every new cloud against the cloud accumulated so far, so
  that its four transforms are chained. In the script of continuous captures, a
  registration that converges moves the accumulated cloud by the inverse of the
  registration transform and extends it by the new capture as it is; the registration
  runs against the accumulated cloud, from the previous transform, and the first capture
  is taken as it is.
\<close>

theorem stitching_accumulates:
  "(let r = local_point_cloud_registration sdk (voxel_downsampled sdk 1.0 3 ca)
              (voxel_downsampled sdk 1.0 3 cb) default_reg_params None;
        acc = extend_cloud sdk (extend_cloud sdk (empty_cloud sdk) ca) (transformed sdk (transform_matrix r) cb)
    in converged r \<longrightarrow>
         stitch_two_main sdk ca cb =
           Inr \<lparr>stitched_cloud = acc, final_cloud = voxel_downsampled sdk 0.5 1 acc\<rparr>)
   \<and> (let r = local_point_cloud_registration sdk target source shoes_reg_params None;
          acc' = voxel_downsampled sdk 1.0 1 (extend_cloud sdk acc (transformed sdk (transform_matrix r) source))
      in converged r \<longrightarrow> shoes_step sdk target acc source file_name = Inr acc')
   \<and> (let r = local_point_cloud_registration sdk acc source shoes_reg_params None;
          acc' = voxel_downsampled sdk 1.0 1 (extend_cloud sdk acc (transformed sdk (transform_matrix r) source))
      in converged r \<and> py_index clouds i = Inr source \<longrightarrow>
           shoes_loop sdk clouds (i # rest) acc = shoes_loop sdk clouds rest acc')
   \<and> (let new = voxel_downsampled sdk 1.0 2 (camera k);
          r = local_point_cloud_registration sdk (unorganized_stitched_point_cloud st) new
                default_reg_params (Some (previous_to_current_point_cloud_transform st))
      in k \<noteq> 0 \<and> converged r \<and> np_linalg_inv (transform_matrix r) = Inr t_inv \<longrightarrow>
           capture_loop sdk np_linalg_inv camera (k # rest) st =
             capture_loop sdk np_linalg_inv camera rest
               \<lparr>previous_to_current_point_cloud_transform = transform_matrix r,
                unorganized_stitched_point_cloud =
                  extend_cloud sdk (transformed sdk t_inv (unorganized_stitched_point_cloud st)) new\<rparr>)
   \<and> capture_loop sdk np_linalg_inv camera (0 # rest) st =
       capture_loop sdk np_linalg_inv camera rest
         (st\<lparr>unorganized_stitched_point_cloud :=
               extend_cloud sdk (unorganized_stitched_point_cloud st)
                 (voxel_downsampled sdk 1.0 2 (camera 0))\<rparr>)
   \<and> (let a0 = extend_cloud sdk (empty_cloud sdk) fa;
        ra = local_point_cloud_registration sdk fa fb shoes_reg_params None;
        aa = voxel_downsampled sdk 1.0 1 (extend_cloud sdk a0 (transformed sdk (transform_matrix ra) fb));
        rb = local_point_cloud_registration sdk aa fc shoes_reg_params None;
        ab = voxel_downsampled sdk 1.0 1 (extend_cloud sdk aa (transformed sdk (transform_matrix rb) fc));
        rc = local_point_cloud_registration sdk ab fd shoes_reg_params None;
        ac = voxel_downsampled sdk 1.0 1 (extend_cloud sdk ab (transformed sdk (transform_matrix rc) fd));
        rd = local_point_cloud_registration sdk ac fe shoes_reg_params None;
        ad = voxel_downsampled sdk 1.0 1 (extend_cloud sdk ac (transformed sdk (transform_matrix rd) fe))
    in converged ra \<and> converged rb \<and> converged rc \<and> converged rd \<longrightarrow>
         shoes_main sdk [fa, fb, fc, fd, fe] =
           Inr \<lparr>stitched_cloud = ad, final_cloud = voxel_downsampled sdk 0.5 1 ad\<rparr>)"
proof (intro conjI)
  show "let r = local_point_cloud_registration sdk (voxel_downsampled sdk 1.0 3 ca)
              (voxel_downsampled sdk 1.0 3 cb) default_reg_params None;
        acc = extend_cloud sdk (extend_cloud sdk (empty_cloud sdk) ca) (transformed sdk (transform_matrix r) cb)
    in converged r \<longrightarrow>
         stitch_two_main sdk ca cb =
           Inr \<lparr>stitched_cloud = acc, final_cloud = voxel_downsampled sdk 0.5 1 acc\<rparr>"
    by (simp add: stitch_two_main_def Let_def)
next
  show "let r = local_point_cloud_registration sdk target source shoes_reg_params None;
          acc' = voxel_downsampled sdk 1.0 1 (extend_cloud sdk acc (transformed sdk (transform_matrix r) source))
      in converged r \<longrightarrow> shoes_step sdk target acc source file_name = Inr acc'"
    by (simp add: shoes_step_def Let_def)
next
  show "let r = local_point_cloud_registration sdk acc source shoes_reg_params None;
          acc' = voxel_downsampled sdk 1.0 1 (extend_cloud sdk acc (transformed sdk (transform_matrix r) source))
      in converged r \<and> py_index clouds i = Inr source \<longrightarrow>
           shoes_loop sdk clouds (i # rest) acc = shoes_loop sdk clouds rest acc'"
    by (simp add: shoes_step_def Let_def)
next
  show "let new = voxel_downsampled sdk 1.0 2 (camera k);
          r = local_point_cloud_registration sdk (unorganized_stitched_point_cloud st) new
                default_reg_params (Some (previous_to_current_point_cloud_transform st))
      in k \<noteq> 0 \<and> converged r \<and> np_linalg_inv (transform_matrix r) = Inr t_inv \<longrightarrow>
           capture_loop sdk np_linalg_inv camera (k # rest) st =
             capture_loop sdk np_linalg_inv camera rest
               \<lparr>previous_to_current_point_cloud_transform = transform_matrix r,
                unorganized_stitched_point_cloud =
                  extend_cloud sdk (transformed sdk t_inv (unorganized_stitched_point_cloud st)) new\<rparr>"
    by (simp add: Let_def)
next
  show "capture_loop sdk np_linalg_inv camera (0 # rest) st =
       capture_loop sdk np_linalg_inv camera rest
         (st\<lparr>unorganized_stitched_point_cloud :=
               extend_cloud sdk (unorganized_stitched_point_cloud st)
                 (voxel_downsampled sdk 1.0 2 (camera 0))\<rparr>)"
    by (simp add: Let_def)
next
  show "(let a0 = extend_cloud sdk (empty_cloud sdk) fa;
        ra = local_point_cloud_registration sdk fa fb shoes_reg_params None;
        aa = voxel_downsampled sdk 1.0 1 (extend_cloud sdk a0 (transformed sdk (transform_matrix ra) fb));
        rb = local_point_cloud_registration sdk aa fc shoes_reg_params None;
        ab = voxel_downsampled sdk 1.0 1 (extend_cloud sdk aa (transformed sdk (transform_matrix rb) fc));
        rc = local_point_cloud_registration sdk ab fd shoes_reg_params None;
        ac = voxel_downsampled sdk 1.0 1 (extend_cloud sdk ab (transformed sdk (transform_matrix rc) fd));
        rd = local_point_cloud_registration sdk ac fe shoes_reg_params None;
        ad = voxel_downsampled sdk 1.0 1 (extend_cloud sdk ac (transformed sdk (transform_matrix rd) fe))
    in converged ra \<and> converged rb \<and> converged rc \<and> converged rd \<longrightarrow>
         shoes_main sdk [fa, fb, fc, fd, fe] =
           Inr \<lparr>stitched_cloud = ad, final_cloud = voxel_downsampled sdk 0.5 1 ad\<rparr>)"
    by (simp add: shoes_main_def five_indices py_index_def shoes_step_def Let_def)
qed

text \<open>Clouds of one point each, under the registration that answers with the unit shift.\<close>

theorem stitching_accumulates_witness:
  "converged shift_answer
   \<and> stitch_two_main (list_sdk shift_answer) [(Fin 0, Fin 0, Fin 0)] [(Fin 4, Fin 0, Fin 0)]
       = Inr \<lparr>stitched_cloud = [(Fin 0, Fin 0, Fin 0), (Fin 5, Fin 0, Fin 0)],
              final_cloud = [(Fin 0, Fin 0, Fin 0), (Fin 5, Fin 0, Fin 0)]\<rparr>
   \<and> shoes_step (list_sdk shift_answer) [(Fin 0, Fin 0, Fin 0)] [(Fin 0, Fin 0, Fin 0)]
        [(Fin 4, Fin 0, Fin 0)] ''03.zdf''
       = Inr [(Fin 0, Fin 0, Fin 0), (Fin 5, Fin 0, Fin 0)]
   \<and> py_index [[(Fin 0, Fin 0, Fin 0)], [(Fin 2, Fin 0, Fin 0)], [(Fin 4, Fin 0, Fin 0)]] 2
       = Inr [(Fin 4, Fin 0, Fin 0)]
   \<and> shoes_loop (list_sdk shift_answer)
        [[(Fin 0, Fin 0, Fin 0)], [(Fin 2, Fin 0, Fin 0)], [(Fin 4, Fin 0, Fin 0)]] [2]
        [(Fin 0, Fin 0, Fin 0)]
       = Inr [(Fin 0, Fin 0, Fin 0), (Fin 5, Fin 0, Fin 0)]
   \<and> inv_unit_shift (translation 1 0 0) = Inr (translation (- 1) 0 0)
   \<and> capture_loop (list_sdk shift_answer) inv_unit_shift line_camera [1]
        \<lparr>previous_to_current_point_cloud_transform = np_identity4,
         unorganized_stitched_point_cloud = [(Fin 0, Fin 0, Fin 0)]\<rparr>
      = Inr \<lparr>previous_to_current_point_cloud_transform = translation 1 0 0,
             unorganized_stitched_point_cloud = [(Fin (- 1), Fin 0, Fin 0), (Fin 1, Fin 0, Fin 0)]\<rparr>
   \<and> shoes_main (list_sdk shift_answer)
        [[(Fin 0, Fin 0, Fin 0)], [(Fin 2, Fin 0, Fin 0)], [(Fin 4, Fin 0, Fin 0)],
         [(Fin 6, Fin 0, Fin 0)], [(Fin 8, Fin 0, Fin 0)]]
      = Inr \<lparr>stitched_cloud = [(Fin 0, Fin 0, Fin 0), (Fin 3, Fin 0, Fin 0), (Fin 5, Fin 0, Fin 0),
                               (Fin 7, Fin 0, Fin 0), (Fin 9, Fin 0, Fin 0)],
             final_cloud = [(Fin 0, Fin 0, Fin 0), (Fin 3, Fin 0, Fin 0), (Fin 5, Fin 0, Fin 0),
                            (Fin 7, Fin 0, Fin 0), (Fin 9, Fin 0, Fin 0)]\<rparr>"
  using stitching_accumulates
    [where sdk = "list_sdk shift_answer" and ca = "[(Fin 0, Fin 0, Fin 0)]"
       and cb = "[(Fin 4, Fin 0, Fin 0)]" and acc = "[(Fin 0, Fin 0, Fin 0)]"
       and target = "[(Fin 0, Fin 0, Fin 0)]"
       and source = "[(Fin 4, Fin 0, Fin 0)]" and file_name = "''03.zdf''"
       and clouds = "[[(Fin 0, Fin 0, Fin 0)], [(Fin 2, Fin 0, Fin 0)], [(Fin 4, Fin 0, Fin 0)]]"
       and i = 2 and rest = "[]" and camera = line_camera and k = 1
       and st = "\<lparr>previous_to_current_point_cloud_transform = np_identity4,
                  unorganized_stitched_point_cloud = [(Fin 0, Fin 0, Fin 0)]\<rparr>"
       and np_linalg_inv = inv_unit_shift and t_inv = "translation (- 1) 0 0"
       and fa = "[(Fin 0, Fin 0, Fin 0)]" and fb = "[(Fin 2, Fin 0, Fin 0)]"
       and fc = "[(Fin 4, Fin 0, Fin 0)]" and fd = "[(Fin 6, Fin 0, Fin 0)]"
       and fe = "[(Fin 8, Fin 0, Fin 0)]"]
  by (simp add: list_sdk_def shift_answer_def line_camera_def inv_unit_shift_def apply_shift
      Let_def py_index_def shoes_main_def shoes_step_def five_indices)

text \<open>
  C3 as stated fails in the script of continuous captures: the accumulated point
  \<open>(0, 0, 0)\<close> is moved to \<open>(-1, 0, 0)\<close> and the new point \<open>(1, 0, 0)\<close> is appended as
  captured, where the claim has \<open>(0, 0, 0)\<close> kept and the new point moved to \<open>(2, 0, 0)\<close>.
\<close>

theorem capture_loop_moves_accumulated_cloud_counterexample:
  "converged shift_answer
   \<and> capture_loop (list_sdk shift_answer) inv_unit_shift line_camera [1]
        \<lparr>previous_to_current_point_cloud_transform = np_identity4,
         unorganized_stitched_point_cloud = [(Fin 0, Fin 0, Fin 0)]\<rparr>
      = Inr \<lparr>previous_to_current_point_cloud_transform = translation 1 0 0,
             unorganized_stitched_point_cloud = [(Fin (- 1), Fin 0, Fin 0), (Fin 1, Fin 0, Fin 0)]\<rparr>
   \<and> extend_cloud (list_sdk shift_answer) [(Fin 0, Fin 0, Fin 0)]
        (transformed (list_sdk shift_answer) (translation 1 0 0)
           (voxel_downsampled (list_sdk shift_answer) 1.0 2 (line_camera 1)))
      = [(Fin 0, Fin 0, Fin 0), (Fin 2, Fin 0, Fin 0)]
   \<and> [(Fin (- 1), Fin 0, Fin 0), (Fin 1, Fin 0, Fin 0)] \<noteq> [(Fin 0, Fin 0, Fin 0), (Fin 2, Fin 0, Fin (0::real))]"
  by (simp add: list_sdk_def shift_answer_def line_camera_def inv_unit_shift_def apply_shift Let_def)

text \<open>
  C4, as the code has it. In the script of two clouds and in the shoes script, a
  registration that does not converge stops the script with an assertion failure, and
  nothing else does. In the script of continuous captures, a registration that does not
  converge skips the capture: the loop goes on with its state unchanged.
\<close>

theorem registration_failure_handling:
  "(stitch_two_main sdk ca cb = Inl (AssertionError ''Registration did not converge...''))
     = (\<not> converged (local_point_cloud_registration sdk (voxel_downsampled sdk 1.0 3 ca)
                       (voxel_downsampled sdk 1.0 3 cb) default_reg_params None))
   \<and> (shoes_step sdk target acc source file_name = Inl (AssertionError (''Registration for '' @ file_name)))
     = (\<not> converged (local_point_cloud_registration sdk target source shoes_reg_params None))
   \<and> (\<not> converged (local_point_cloud_registration sdk acc source shoes_reg_params None)
        \<and> py_index clouds i = Inr source \<longrightarrow>
      shoes_loop sdk clouds (i # rest) acc =
        Inl (AssertionError (''Registration for 0'' @ str_nat (i + 1) @ ''.zdf'')))
   \<and> (\<not> converged (local_point_cloud_registration sdk first second shoes_reg_params None) \<longrightarrow>
      shoes_main sdk (first # second # others) = Inl (AssertionError ''Registration for 02.zdf''))
   \<and> (k \<noteq> 0
        \<and> \<not> converged (local_point_cloud_registration sdk (unorganized_stitched_point_cloud st)
                         (voxel_downsampled sdk 1.0 2 (camera k)) default_reg_params
                         (Some (previous_to_current_point_cloud_transform st))) \<longrightarrow>
      capture_loop sdk np_linalg_inv camera (k # rest) st =
        capture_loop sdk np_linalg_inv camera rest st)"
proof (intro conjI)
  show "(stitch_two_main sdk ca cb = Inl (AssertionError ''Registration did not converge...''))
     = (\<not> converged (local_point_cloud_registration sdk (voxel_downsampled sdk 1.0 3 ca)
                       (voxel_downsampled sdk 1.0 3 cb) default_reg_params None))"
    by (simp add: stitch_two_main_def Let_def)
next
  show "(shoes_step sdk target acc source file_name = Inl (AssertionError (''Registration for '' @ file_name)))
     = (\<not> converged (local_point_cloud_registration sdk target source shoes_reg_params None))"
    by (simp add: shoes_step_def Let_def)
next
  show "\<not> converged (local_point_cloud_registration sdk acc source shoes_reg_params None)
        \<and> py_index clouds i = Inr source \<longrightarrow>
      shoes_loop sdk clouds (i # rest) acc =
        Inl (AssertionError (''Registration for 0'' @ str_nat (i + 1) @ ''.zdf''))"
    by (simp add: shoes_step_def Let_def)
next
  show "\<not> converged (local_point_cloud_registration sdk first second shoes_reg_params None) \<longrightarrow>
      shoes_main sdk (first # second # others) = Inl (AssertionError ''Registration for 02.zdf'')"
    by (simp add: shoes_main_def shoes_step_def py_index_def Let_def)
next
  show "k \<noteq> 0
        \<and> \<not> converged (local_point_cloud_registration sdk (unorganized_stitched_point_cloud st)
                         (voxel_downsampled sdk 1.0 2 (camera k)) default_reg_params
                         (Some (previous_to_current_point_cloud_transform st))) \<longrightarrow>
      capture_loop sdk np_linalg_inv camera (k # rest) st =
        capture_loop sdk np_linalg_inv camera rest st"
    by (simp add: Let_def)
qed

text \<open>The scripts under the registration that never converges.\<close>

theorem registration_failure_handling_witness:
  "\<not> converged no_answer
   \<and> stitch_two_main (list_sdk no_answer) [(Fin 0, Fin 0, Fin 0)] [(Fin 4, Fin 0, Fin 0)]
       = Inl (AssertionError ''Registration did not converge...'')
   \<and> shoes_step (list_sdk no_answer) [(Fin 0, Fin 0, Fin 0)] [(Fin 0, Fin 0, Fin 0)]
        [(Fin 4, Fin 0, Fin 0)] ''03.zdf''
       = Inl (AssertionError ''Registration for 03.zdf'')
   \<and> py_index [[(Fin 0, Fin 0, Fin 0)], [(Fin 2, Fin 0, Fin 0)], [(Fin 4, Fin 0, Fin 0)]] 2
       = Inr [(Fin 4, Fin 0, Fin 0)]
   \<and> shoes_loop (list_sdk no_answer)
        [[(Fin 0, Fin 0, Fin 0)], [(Fin 2, Fin 0, Fin 0)], [(Fin 4, Fin 0, Fin 0)]] [2, 3]
        [(Fin 0, Fin 0, Fin 0)]
       = Inl (AssertionError ''Registration for 03.zdf'')
   \<and> shoes_main (list_sdk no_answer) [[(Fin 0, Fin 0, Fin 0)], [(Fin 2, Fin 0, Fin 0)]]
       = Inl (AssertionError ''Registration for 02.zdf'')
   \<and> capture_loop (list_sdk no_answer) inv_unit_shift line_camera [1]
        \<lparr>previous_to_current_point_cloud_transform = np_identity4,
         unorganized_stitched_point_cloud = [(Fin 0, Fin 0, Fin 0)]\<rparr>
      = Inr \<lparr>previous_to_current_point_cloud_transform = np_identity4,
             unorganized_stitched_point_cloud = [(Fin 0, Fin 0, Fin 0)]\<rparr>"
  using registration_failure_handling
    [where sdk = "list_sdk no_answer" and ca = "[(Fin 0, Fin 0, Fin 0)]"
       and cb = "[(Fin 4, Fin 0, Fin 0)]" and acc = "[(Fin 0, Fin 0, Fin 0)]"
       and target = "[(Fin 0, Fin 0, Fin 0)]"
       and source = "[(Fin 4, Fin 0, Fin 0)]" and file_name = "''03.zdf''"
       and clouds = "[[(Fin 0, Fin 0, Fin 0)], [(Fin 2, Fin 0, Fin 0)], [(Fin 4, Fin 0, Fin 0)]]"
       and i = 2 and rest = "[3]" and first = "[(Fin 0, Fin 0, Fin 0)]"
       and second = "[(Fin 2, Fin 0, Fin 0)]" and others = "[]"
       and camera = line_camera and k = 1
       and st = "\<lparr>previous_to_current_point_cloud_transform = np_identity4,
                  unorganized_stitched_point_cloud = [(Fin 0, Fin 0, Fin 0)]\<rparr>"
       and np_linalg_inv = inv_unit_shift]
  by (simp add: list_sdk_def no_answer_def line_camera_def Let_def py_index_def str_nat.simps)

lemma capture_loop_never_converges:
  assumes "\<And>target source parameters initial_transform.
             \<not> converged (local_point_cloud_registration sdk target source parameters initial_transform)"
      and "0 \<notin> set ks"
  shows "capture_loop sdk np_linalg_inv camera ks st = Inr st"
  using assms(2) by (induction ks) (simp_all add: Let_def assms(1))

lemma captures_from_zero: "[0..<20] = 0 # [1..<20]"
  by (simp add: upt_rec)

text \<open>
  C4 as stated fails in the script of continuous captures: with a registration that
  never converges the script ends without any failure, its cloud the first capture.
\<close>

theorem capture_main_skips_counterexample:
  "\<not> converged no_answer
   \<and> capture_main (list_sdk no_answer) inv_unit_shift line_camera
       = Inr \<lparr>stitched_cloud = [(Fin 0, Fin 0, Fin 0)], final_cloud = [(Fin 0, Fin 0, Fin 0)]\<rparr>"
proof -
  have n: "\<And>target source parameters initial_transform.
      \<not> converged (local_point_cloud_registration (list_sdk no_answer) target source parameters initial_transform)"
    by (simp add: list_sdk_def no_answer_def)
  have z: "0 \<notin> set [Suc 0..<20]" by simp
  have loop: "\<And>st. capture_loop (list_sdk no_answer) inv_unit_shift line_camera [Suc 0..<20] st = Inr st"
    by (rule capture_loop_never_converges [OF n z])
  show ?thesis
    unfolding capture_main_def captures_from_zero
    by (simp add: Let_def loop) (simp add: list_sdk_def no_answer_def line_camera_def)
qed

section \<open>Raising on a failure of the SDK\<close>

lemma detect_loop_all_valid:
  assumes "\<And>k. lo \<le> k \<Longrightarrow> k < n \<Longrightarrow> files k \<noteq> None \<and> valid (detect (the (files k)))"
      and "files n = None" and "lo \<le> n"
  shows "detect_loop files path detect valid lo acc =
           Some (Inr (acc @ map (\<lambda>k. detect (the (files k))) [lo..<n]))"
  using assms
proof (induction "n - lo" arbitrary: lo acc)
  case 0
  then have "lo = n" by simp
  then show ?case using "0.prems"(2) by (subst detect_loop.simps) simp
next
  case (Suc d)
  then have lt: "lo < n" by simp
  from Suc.prems(1) [of lo] lt obtain f where f: "files lo = Some f" and v: "valid (detect f)"
    by auto
  have ih: "detect_loop files path detect valid (lo + 1) (acc @ [detect f]) =
      Some (Inr ((acc @ [detect f]) @ map (\<lambda>k. detect (the (files k))) [lo + 1..<n]))"
    using Suc.hyps(2) Suc.prems lt by (intro Suc.hyps(1)) auto
  show ?case
    using f v ih lt by (subst detect_loop.simps) (simp add: upt_conv_Cons)
qed

lemma detect_loop_first_invalid:
  assumes "\<And>k. lo \<le> k \<Longrightarrow> k < j \<Longrightarrow> files k \<noteq> None \<and> valid (detect (the (files k)))"
      and "files j \<noteq> None" and "\<not> valid (detect (the (files j)))" and "lo \<le> j"
  shows "detect_loop files path detect valid lo acc =
           Some (Inl (RuntimeError (''Failed to detect feature points from frame '' @ path j)))"
  using assms
proof (induction "j - lo" arbitrary: lo acc)
  case 0
  then have "lo = j" by simp
  then show ?case using "0.prems"(2,3) by (subst detect_loop.simps) auto
next
  case (Suc d)
  then have lt: "lo < j" by simp
  from Suc.prems(1) [of lo] lt obtain f where f: "files lo = Some f" and v: "valid (detect f)"
    by auto
  have ih: "detect_loop files path detect valid (lo + 1) (acc @ [detect f]) =
      Some (Inl (RuntimeError (''Failed to detect feature points from frame '' @ path j)))"
    using Suc.hyps(2) Suc.prems lt by (intro Suc.hyps(1)) auto
  show ?case
    using f v ih by (subst detect_loop.simps) simp
qed

lemma first_invalid_exists:
  fixes P :: "nat \<Rightarrow> bool"
  assumes "a \<le> k" and "P k"
  shows "\<exists>j. a \<le> j \<and> j \<le> k \<and> P j \<and> (\<forall>i. a \<le> i \<and> i < j \<longrightarrow> \<not> P i)"
proof -
  let ?Q = "\<lambda>j. a \<le> j \<and> P j"
  have q: "?Q k" using assms by simp
  let ?j = "LEAST j. ?Q j"
  have 1: "?Q ?j" using q by (rule LeastI)
  have 2: "?j \<le> k" using q by (rule Least_le)
  have 3: "\<And>i. i < ?j \<Longrightarrow> \<not> ?Q i" by (rule not_less_Least)
  show ?thesis using 1 2 3 by blast
qed

lemma detect_loop_raises_iff:
  assumes ex: "\<And>k. 1 \<le> k \<Longrightarrow> k < n \<Longrightarrow> files k \<noteq> None" and stop: "files n = None" and n: "1 \<le> n"
  shows "(\<exists>m. detect_loop files path detect valid 1 [] = Some (Inl (RuntimeError m)))
           = (\<exists>k. 1 \<le> k \<and> k < n \<and> \<not> valid (detect (the (files k))))"
    and "detect_loop files path detect valid 1 [] \<noteq> None"
proof -
  show "(\<exists>m. detect_loop files path detect valid 1 [] = Some (Inl (RuntimeError m)))
           = (\<exists>k. 1 \<le> k \<and> k < n \<and> \<not> valid (detect (the (files k))))"
  proof (cases "\<exists>k. 1 \<le> k \<and> k < n \<and> \<not> valid (detect (the (files k)))")
    case True
    then obtain k where k: "1 \<le> k" "k < n" "\<not> valid (detect (the (files k)))" by blast
    from first_invalid_exists [of 1 k "\<lambda>k. \<not> valid (detect (the (files k)))"] k
    obtain j where j: "1 \<le> j" "j \<le> k" "\<not> valid (detect (the (files j)))"
      "\<forall>i. 1 \<le> i \<and> i < j \<longrightarrow> valid (detect (the (files i)))" by auto
    have "detect_loop files path detect valid 1 [] =
           Some (Inl (RuntimeError (''Failed to detect feature points from frame '' @ path j)))"
      using j k ex by (intro detect_loop_first_invalid) auto
    with True show ?thesis by simp
  next
    case False
    then have "detect_loop files path detect valid 1 [] =
           Some (Inr ([] @ map (\<lambda>k. detect (the (files k))) [1..<n]))"
      using ex stop n by (intro detect_loop_all_valid) auto
    with False show ?thesis by simp
  qed
  then show "detect_loop files path detect valid 1 [] \<noteq> None"
  proof (cases "\<exists>k. 1 \<le> k \<and> k < n \<and> \<not> valid (detect (the (files k)))")
    case True
    with \<open>(\<exists>m. detect_loop files path detect valid 1 [] = Some (Inl (RuntimeError m))) = _\<close>
    show ?thesis by auto
  next
    case False
    then have "detect_loop files path detect valid 1 [] =
           Some (Inr ([] @ map (\<lambda>k. detect (the (files k))) [1..<n]))"
      using ex stop n by (intro detect_loop_all_valid) auto
    then show ?thesis by simp
  qed
qed

lemma initialize_robot_sync_raises_iff:
  "(\<exists>m. snd (initialize_robot_sync con) = Inl (RuntimeError m))
     = (\<not> negotiate_protocol_version con \<or> \<not> send_output_setup con \<or> \<not> send_start con)"
  by (auto simp: initialize_robot_sync_def Let_def)

lemma initialize_robot_sync_distinct: "distinct (fst (initialize_robot_sync con))"
  by (simp add: initialize_robot_sync_def Let_def)

text \<open>
  C5. \<open>_initialize_robot_sync\<close> raises RuntimeError exactly when the negotiation of the
  protocol fails, when the output setup cannot be configured, or when the
  synchronization cannot be started; it sends no request twice, and the failed request
  is the last it sends. The first loop of the multi-camera script, over the files
  \<open>img01.zdf\<close> up to the first missing one, ends, and raises RuntimeError exactly when the
  detection on one of these frames is not valid: at the first such frame, with its path.
\<close>

theorem raise_on_sdk_failure:
  "(\<exists>m. snd (initialize_robot_sync con) = Inl (RuntimeError m))
      = (\<not> negotiate_protocol_version con \<or> \<not> send_output_setup con \<or> \<not> send_start con)
   \<and> distinct (fst (initialize_robot_sync con))
   \<and> (\<not> negotiate_protocol_version con \<longrightarrow>
        initialize_robot_sync con =
          ([Connect, NegotiateProtocolVersion], Inl (RuntimeError ''Protocol do not match'')))
   \<and> (negotiate_protocol_version con \<and> \<not> send_output_setup con \<longrightarrow>
        initialize_robot_sync con =
          ([Connect, NegotiateProtocolVersion, SendOutputSetup],
           Inl (RuntimeError ''Unable to configure output'')))
   \<and> (negotiate_protocol_version con \<and> send_output_setup con \<and> \<not> send_start con \<longrightarrow>
        initialize_robot_sync con =
          ([Connect, NegotiateProtocolVersion, SendOutputSetup, SendInputSetup, SendStart],
           Inl (RuntimeError ''Unable to start synchronization'')))
   \<and> (negotiate_protocol_version con \<and> send_output_setup con \<and> send_start con \<longrightarrow>
        initialize_robot_sync con =
          ([Connect, NegotiateProtocolVersion, SendOutputSetup, SendInputSetup, SendStart],
           Inr (send_input_setup con)))
   \<and> ((\<forall>k. 1 \<le> k \<and> k < n \<longrightarrow> files k \<noteq> None) \<and> files n = None \<and> 1 \<le> n \<longrightarrow>
        detect_loop files path detect valid 1 [] \<noteq> None
        \<and> (\<exists>m. detect_loop files path detect valid 1 [] = Some (Inl (RuntimeError m)))
            = (\<exists>k. 1 \<le> k \<and> k < n \<and> \<not> valid (detect (the (files k))))
        \<and> (1 \<le> j \<and> j < n \<and> \<not> valid (detect (the (files j)))
             \<and> (\<forall>i. 1 \<le> i \<and> i < j \<longrightarrow> valid (detect (the (files i)))) \<longrightarrow>
            detect_loop files path detect valid 1 [] =
              Some (Inl (RuntimeError (''Failed to detect feature points from frame '' @ path j))))
        \<and> ((\<forall>k. 1 \<le> k \<and> k < n \<longrightarrow> valid (detect (the (files k)))) \<longrightarrow>
            detect_loop files path detect valid 1 [] =
              Some (Inr (map (\<lambda>k. detect (the (files k))) [1..<n]))))"
proof (intro conjI impI)
  show "(\<exists>m. snd (initialize_robot_sync con) = Inl (RuntimeError m))
      = (\<not> negotiate_protocol_version con \<or> \<not> send_output_setup con \<or> \<not> send_start con)"
    by (rule initialize_robot_sync_raises_iff)
  show "distinct (fst (initialize_robot_sync con))"
    by (rule initialize_robot_sync_distinct)
next
  assume "\<not> negotiate_protocol_version con"
  then show "initialize_robot_sync con =
          ([Connect, NegotiateProtocolVersion], Inl (RuntimeError ''Protocol do not match''))"
    by (simp add: initialize_robot_sync_def)
next
  assume "negotiate_protocol_version con \<and> \<not> send_output_setup con"
  then show "initialize_robot_sync con =
          ([Connect, NegotiateProtocolVersion, SendOutputSetup],
           Inl (RuntimeError ''Unable to configure output''))"
    by (simp add: initialize_robot_sync_def)
next
  assume "negotiate_protocol_version con \<and> send_output_setup con \<and> \<not> send_start con"
  then show "initialize_robot_sync con =
          ([Connect, NegotiateProtocolVersion, SendOutputSetup, SendInputSetup, SendStart],
           Inl (RuntimeError ''Unable to start synchronization''))"
    by (simp add: initialize_robot_sync_def)
next
  assume "negotiate_protocol_version con \<and> send_output_setup con \<and> send_start con"
  then show "initialize_robot_sync con =
          ([Connect, NegotiateProtocolVersion, SendOutputSetup, SendInputSetup, SendStart],
           Inr (send_input_setup con))"
    by (simp add: initialize_robot_sync_def)
next
  assume a: "(\<forall>k. 1 \<le> k \<and> k < n \<longrightarrow> files k \<noteq> None) \<and> files n = None \<and> 1 \<le> n"
  then show "detect_loop files path detect valid 1 [] \<noteq> None"
    by (intro detect_loop_raises_iff(2) [of n]) auto
  from a show "(\<exists>m. detect_loop files path detect valid 1 [] = Some (Inl (RuntimeError m)))
            = (\<exists>k. 1 \<le> k \<and> k < n \<and> \<not> valid (detect (the (files k))))"
    by (intro detect_loop_raises_iff(1)) auto
next
  assume a: "(\<forall>k. 1 \<le> k \<and> k < n \<longrightarrow> files k \<noteq> None) \<and> files n = None \<and> 1 \<le> n"
    and b: "1 \<le> j \<and> j < n \<and> \<not> valid (detect (the (files j)))
             \<and> (\<forall>i. 1 \<le> i \<and> i < j \<longrightarrow> valid (detect (the (files i))))"
  then show "detect_loop files path detect valid 1 [] =
              Some (Inl (RuntimeError (''Failed to detect feature points from frame '' @ path j)))"
    by (intro detect_loop_first_invalid) auto
next
  assume a: "(\<forall>k. 1 \<le> k \<and> k < n \<longrightarrow> files k \<noteq> None) \<and> files n = None \<and> 1 \<le> n"
    and b: "\<forall>k. 1 \<le> k \<and> k < n \<longrightarrow> valid (detect (the (files k)))"
  then have "detect_loop files path detect valid 1 [] =
              Some (Inr ([] @ map (\<lambda>k. detect (the (files k))) [1..<n]))"
    by (intro detect_loop_all_valid) auto
  then show "detect_loop files path detect valid 1 [] =
              Some (Inr (map (\<lambda>k. detect (the (files k))) [1..<n]))"
    by simp
qed

text \<open>An output setup that fails; two frames, of which the second has no valid detection.\<close>

theorem raise_on_sdk_failure_witness:
  "initialize_robot_sync \<lparr>negotiate_protocol_version = True, send_output_setup = False,
        send_input_setup = (), send_start = True\<rparr>
     = ([Connect, NegotiateProtocolVersion, SendOutputSetup],
        Inl (RuntimeError ''Unable to configure output''))
   \<and> two_frames 1 = Some 10 \<and> two_frames 2 = Some 20 \<and> two_frames 3 = None
   \<and> detect_loop two_frames (\<lambda>k. ''img0'' @ str_nat k @ ''.zdf'') (\<lambda>f. f) (\<lambda>d. d < 15) 1 []
       = Some (Inl (RuntimeError ''Failed to detect feature points from frame img02.zdf''))"
proof -
  have ex: "\<forall>k. 1 \<le> k \<and> k < 3 \<longrightarrow> two_frames k \<noteq> None"
    by (simp add: two_frames_def)
  have first: "\<forall>i. 1 \<le> i \<and> i < 2 \<longrightarrow> the (two_frames i) < 15"
  proof (intro allI impI)
    fix i :: nat assume "1 \<le> i \<and> i < 2"
    then have "i = 1" by arith
    then show "the (two_frames i) < 15" by (simp add: two_frames_def)
  qed
  show ?thesis
    using ex first
      raise_on_sdk_failure
        [where con = "\<lparr>negotiate_protocol_version = True, send_output_setup = False,
                        send_input_setup = (), send_start = True\<rparr>"
           and files = two_frames and n = 3 and j = 2
           and path = "\<lambda>k. ''img0'' @ str_nat k @ ''.zdf''"
           and detect = "\<lambda>f. f" and valid = "\<lambda>d. d < 15"]
    by (simp add: two_frames_def str_nat.simps)
qed

section \<open>Stitching the frames of several cameras\<close>

lemma stitch_loop_bound:
  assumes "1 \<le> a" and "a \<le> b" and "b \<le> length transforms"
  shows "stitch_loop tr files transforms [a..<b] \<lparr>idata = a + 1, stitched = Some (sx, sr)\<rparr> =
           Inr \<lparr>idata = b + 1,
                stitched = Some
                  (sx @ concat (map (\<lambda>i. frame_xyz (tr (transforms ! i) (the (files (i + 1)))))
                                  (filter (\<lambda>i. files (i + 1) \<noteq> None) [a..<b])),
                   sr @ concat (map (\<lambda>i. frame_rgb (tr (transforms ! i) (the (files (i + 1)))))
                                  (filter (\<lambda>i. files (i + 1) \<noteq> None) [a..<b])))\<rparr>"
  using assms
proof (induction "b - a" arbitrary: a sx sr)
  case 0
  then show ?case by simp
next
  case (Suc d)
  then have lt: "a < b" by simp
  have up: "[a..<b] = a # [a + 1..<b]" using lt by (simp add: upt_conv_Cons)
  have ix: "py_index transforms a = Inr (transforms ! a)"
    using lt Suc.prems by (simp add: py_index_def)
  have ih: "\<And>sx sr. stitch_loop tr files transforms [a + 1..<b] \<lparr>idata = (a + 1) + 1, stitched = Some (sx, sr)\<rparr> =
           Inr \<lparr>idata = b + 1,
                stitched = Some
                  (sx @ concat (map (\<lambda>i. frame_xyz (tr (transforms ! i) (the (files (i + 1)))))
                                  (filter (\<lambda>i. files (i + 1) \<noteq> None) [a + 1..<b])),
                   sr @ concat (map (\<lambda>i. frame_rgb (tr (transforms ! i) (the (files (i + 1)))))
                                  (filter (\<lambda>i. files (i + 1) \<noteq> None) [a + 1..<b])))\<rparr>"
    using Suc.hyps(2) Suc.prems lt by (intro Suc.hyps(1)) auto
  show ?case
  proof (cases "files (a + 1)")
    case None
    then show ?thesis
      unfolding up using ih [of sx sr] by simp
  next
    case (Some pc)
    then show ?thesis
      unfolding up using ih ix Suc.prems(1) by (simp add: Let_def)
  qed
qed

text \<open>
  When the first test file exists, the loop ends with \<open>stitched_xyz\<close> and \<open>stitched_rgb\<close>
  the arrays of the loaded frames, each transformed, one after the other in the order
  of the files, and their numbers of rows are the sums of the point counts of these
  frames.
\<close>

lemma stitch_frames_first_file_present:
  assumes "transforms \<noteq> []" and "files 1 \<noteq> None"
  shows "let present = filter (\<lambda>i. files (i + 1) \<noteq> None) [0..<length transforms];
             frame = (\<lambda>i. pc_transform (transforms ! i) (the (files (i + 1))));
             stitched_xyz = concat (map (\<lambda>i. frame_xyz (frame i)) present);
             stitched_rgb = concat (map (\<lambda>i. frame_rgb (frame i)) present)
         in stitch_frames pc_transform files transforms =
              Inr \<lparr>idata = length transforms + 1, stitched = Some (stitched_xyz, stitched_rgb)\<rparr>
            \<and> length stitched_xyz = sum_list (map (\<lambda>i. length (concat (pc_xyz (frame i)))) present)
            \<and> length stitched_rgb = sum_list (map (\<lambda>i. length (concat (pc_rgba (frame i)))) present)"
proof -
  obtain pc where pc: "files (Suc 0) = Some pc" using assms(2) by auto
  have n: "0 < length transforms" using assms(1) by simp
  have up: "[0..<length transforms] = 0 # [Suc 0..<length transforms]"
    using n by (simp add: upt_conv_Cons)
  have ix: "py_index transforms 0 = Inr (transforms ! 0)"
    using n by (simp add: py_index_def)
  have loop: "\<And>sx sr. stitch_loop pc_transform files transforms [Suc 0..<length transforms]
                 \<lparr>idata = Suc (Suc 0), stitched = Some (sx, sr)\<rparr> =
           Inr \<lparr>idata = length transforms + 1,
                stitched = Some
                  (sx @ concat (map (\<lambda>i. frame_xyz (pc_transform (transforms ! i) (the (files (i + 1)))))
                                  (filter (\<lambda>i. files (i + 1) \<noteq> None) [Suc 0..<length transforms])),
                   sr @ concat (map (\<lambda>i. frame_rgb (pc_transform (transforms ! i) (the (files (i + 1)))))
                                  (filter (\<lambda>i. files (i + 1) \<noteq> None) [Suc 0..<length transforms])))\<rparr>"
    using stitch_loop_bound [of 1 "length transforms" transforms pc_transform files] n by simp
  have len_xyz: "\<And>p. length (frame_xyz p) = length (concat (pc_xyz p))"
    by (simp add: frame_xyz_def length_concat comp_def)
  have len_rgb: "\<And>p. length (frame_rgb p) = length (concat (pc_rgba p))"
    by (simp add: frame_rgb_def length_concat comp_def)
  have run: "stitch_frames pc_transform files transforms =
      Inr \<lparr>idata = length transforms + 1,
           stitched = Some
             (concat (map (\<lambda>i. frame_xyz (pc_transform (transforms ! i) (the (files (i + 1)))))
                        (filter (\<lambda>i. files (i + 1) \<noteq> None) [0..<length transforms])),
              concat (map (\<lambda>i. frame_rgb (pc_transform (transforms ! i) (the (files (i + 1)))))
                        (filter (\<lambda>i. files (i + 1) \<noteq> None) [0..<length transforms])))\<rparr>"
    unfolding stitch_frames_def up
    using pc ix loop by (simp add: Let_def)
  show ?thesis
    unfolding Let_def run
    by (simp add: length_concat comp_def len_xyz len_rgb)
qed

text \<open>Two test frames, of two and of one pixel.\<close>

lemma stitch_frames_two_test_frames:
  "[np_identity4, translation 1 0 0] \<noteq> [] \<and> two_test_frames 1 \<noteq> None
   \<and> stitch_frames move_xyz two_test_frames [np_identity4, translation 1 0 0]
       = Inr \<lparr>idata = 3,
              stitched = Some ([(Fin 0, Fin 0, Fin 0), (Fin 0, Fin 0, Fin 0), (Fin 6, Fin 0, Fin 0)],
                               [(Fin 1, Fin 2, Fin 3), (Fin 0, Fin 0, Fin 0), (Fin 7, Fin 8, Fin 9)])\<rparr>"
proof -
  have t: "[np_identity4, translation 1 0 0] \<noteq> []" by simp
  have f: "two_test_frames 1 \<noteq> None" by (simp add: two_test_frames_def)
  have u: "[0..<2] = [0, 1]" by (simp add: upt_rec)
  show ?thesis
    using t f stitch_frames_first_file_present
      [where transforms = "[np_identity4, translation 1 0 0]" and files = two_test_frames
         and pc_transform = move_xyz, OF t f]
    by (simp add: Let_def u two_test_frames_def move_xyz_def frame_xyz_def frame_rgb_def
        np_identity4_def translation_def)
qed

text \<open>
  C8. In the multi-camera script the stitched arrays are to be the concatenation of the
  per-frame arrays of the frames that are processed. The loop skips a test file that
  does not exist (\<open>frame_file_path.is_file()\<close>), but it starts the stitched arrays only
  in the pass \<open>i == 0\<close>: with calibrations of two cameras, \<open>img_test_01.zdf\<close> missing and
  \<open>img_test_02.zdf\<close> present, the pass for the second file concatenates to
  \<open>stitched_xyz\<close>, which is unbound, and the script raises UnboundLocalError instead of
  giving the arrays of the one processed frame.
\<close>

theorem stitch_frames_first_file_missing:
  "stitch_frames move_xyz (\<lambda>k. if k = 2 then two_test_frames 2 else None) [np_identity4, translation 1 0 0]
     = Inl (UnboundLocalError ''stitched_xyz'')"
proof -
  have u: "[0..<2] = [0, 1]" by (simp add: upt_rec)
  show ?thesis
    by (simp add: stitch_frames_def u py_index_def Let_def two_test_frames_def)
qed

end
